theory Spec2Isabelle
  imports Complex_Main "HOL-Library.Multiset"
begin

section \<open>Python values\<close>

text \<open>
  Instants are \<open>datetime\<close> values, counted in microseconds (the resolution of
  \<open>datetime\<close> and \<open>timedelta\<close>).
\<close>

type_synonym time = int

text \<open>
  A Python float is a binary64 value: a number, an infinity, or the not-a-number value
  that pandas uses for a missing cell. The rounding of binary64 arithmetic is a
  parameter: \<open>round64\<close> takes the exact result of an operation to the float nearest to
  it, or to an infinity when it is out of range.
\<close>

datatype pyfloat = Num real | PosInf | NegInf | NaN

record floats =
  round64 :: "real \<Rightarrow> pyfloat"

text \<open>\<open>x - y\<close> on floats: the exact difference rounded once, with the IEEE cases.\<close>

fun fsub :: "(real \<Rightarrow> pyfloat) \<Rightarrow> pyfloat \<Rightarrow> pyfloat \<Rightarrow> pyfloat" where
  "fsub rnd (Num a) (Num b) = rnd (a - b)"
| "fsub rnd (Num a) PosInf = NegInf"
| "fsub rnd (Num a) NegInf = PosInf"
| "fsub rnd (Num a) NaN = NaN"
| "fsub rnd PosInf (Num b) = PosInf"
| "fsub rnd PosInf PosInf = NaN"
| "fsub rnd PosInf NegInf = PosInf"
| "fsub rnd PosInf NaN = NaN"
| "fsub rnd NegInf (Num b) = NegInf"
| "fsub rnd NegInf PosInf = NegInf"
| "fsub rnd NegInf NegInf = NaN"
| "fsub rnd NegInf NaN = NaN"
| "fsub rnd NaN y = NaN"

text \<open>\<open>pd.notna\<close> on a float.\<close>

fun notna :: "pyfloat \<Rightarrow> bool" where
  "notna NaN = False"
| "notna (Num a) = True"
| "notna PosInf = True"
| "notna NegInf = True"

datatype exn =
    RequestException string
  | KeyError string
  | TypeError string
  | ValueError string
  | AttributeError string

text \<open>Sequencing of steps that may raise: the first exception ends the block.\<close>

definition and_then :: "exn + 'a \<Rightarrow> ('a \<Rightarrow> exn + 'b) \<Rightarrow> exn + 'b" where
  "and_then r f = (case r of Inl e \<Rightarrow> Inl e | Inr x \<Rightarrow> f x)"

datatype json =
    JNull
  | JBool bool
  | JNum real
  | JStr string
  | JArr "json list"
  | JObj "(string \<times> json) list"

text \<open>
  \<open>obj[key]\<close> with a string key on a decoded JSON value. A decoded object is a
  \<open>dict\<close> in which the last of several equal keys has won.
\<close>

fun subscript :: "json \<Rightarrow> string \<Rightarrow> exn + json" where
  "subscript (JObj kvs) k =
     (case map_of (rev kvs) k of None \<Rightarrow> Inl (KeyError k) | Some v \<Rightarrow> Inr v)"
| "subscript (JArr xs) k = Inl (TypeError ''list indices must be integers or slices, not str'')"
| "subscript (JStr s) k = Inl (TypeError ''string indices must be integers'')"
| "subscript (JNum r) k = Inl (TypeError ''object is not subscriptable'')"
| "subscript (JBool b) k = Inl (TypeError ''object is not subscriptable'')"
| "subscript JNull k = Inl (TypeError ''object is not subscriptable'')"

section \<open>The HTTP call\<close>

text \<open>
  What \<open>requests.get\<close> gives back: it raises, or it returns a response.
  \<open>error_text\<close> is the text of the \<open>HTTPError\<close> that \<open>raise_for_status()\<close>
  builds for a 4xx or 5xx response; \<open>json_body\<close> is what \<open>.json()\<close> does, the
  decoded value or the exception it raises.
\<close>

record response =
  status_code :: int
  headers :: "(string \<times> string) list"
  error_text :: string
  json_body :: "exn + json"

datatype http_result = Raised exn | Returned response

definition raise_for_status :: "response \<Rightarrow> exn + unit" where
  "raise_for_status r =
     (if 400 \<le> status_code r \<and> status_code r < 600
      then Inl (RequestException (error_text r)) else Inr ())"

text \<open>
  \<open>resp.headers.get(key, default)\<close>: the headers of a response are a dictionary that
  compares the names without regard to the case of ASCII letters.
\<close>

definition lower :: "char \<Rightarrow> char" where
  "lower c =
     (case map_of (zip ''ABCDEFGHIJKLMNOPQRSTUVWXYZ'' ''abcdefghijklmnopqrstuvwxyz'') c of
        None \<Rightarrow> c
      | Some l \<Rightarrow> l)"

definition headers_get :: "response \<Rightarrow> string \<Rightarrow> string \<Rightarrow> string" where
  "headers_get r k d =
     (case find (\<lambda>h. map lower (fst h) = map lower k) (headers r) of
        None \<Rightarrow> d
      | Some h \<Rightarrow> snd h)"

text \<open>The pair \<open>(df, None)\<close> is \<open>Data df\<close>, the pair \<open>(None, message)\<close> is \<open>Error message\<close>.\<close>

datatype 'a fetched = Data 'a | Error string

definition emdash :: string where
  "emdash = [CHR 0xE2, CHR 0x80, CHR 0x94]"

definition too_many_requests :: "response \<Rightarrow> string" where
  "too_many_requests r =
     ''429 Too Many Requests '' @ emdash @ '' try again after ''
       @ headers_get r ''Retry-After'' ''a bit'' @ ''s''"

text \<open>\<open>except requests.RequestException as e\<close>: every other exception passes through.\<close>

definition except_RequestException :: "exn + 'a fetched \<Rightarrow> exn + 'a fetched" where
  "except_RequestException r =
     (case r of
        Inl e \<Rightarrow>
          (case e of
             RequestException t \<Rightarrow> Inr (Error (''Network/HTTP error: '' @ t))
           | KeyError t \<Rightarrow> Inl e
           | TypeError t \<Rightarrow> Inl e
           | ValueError t \<Rightarrow> Inl e
           | AttributeError t \<Rightarrow> Inl e)
      | Inr v \<Rightarrow> Inr v)"

section \<open>Home.py: the price page\<close>

definition COINS :: "string list" where
  "COINS = [''bitcoin'', ''ethereum'']"

definition VS :: string where
  "VS = ''usd''"

fun join :: "string \<Rightarrow> string list \<Rightarrow> string" where
  "join sep [] = []"
| "join sep [x] = x"
| "join sep (x # y # ys) = x @ sep @ join sep (y # ys)"

definition build_url :: "string list \<Rightarrow> string" where
  "build_url ids =
     ''https://api.coingecko.com/api/v3/simple/price?ids='' @ join '','' ids
       @ ''&vs_currencies='' @ VS"

definition API_URL :: string where
  "API_URL = build_url COINS"

text \<open>
  A data frame as the page reads it: one row per coin, the \<open>coin\<close> column and the
  numeric columns by name.
\<close>

type_synonym row = "string \<times> (string \<times> pyfloat) list"
type_synonym frame = "row list"

definition SAMPLE_DF :: frame where
  "SAMPLE_DF = [(''bitcoin'', [(VS, Num 68000)]), (''ethereum'', [(VS, Num 3500)])]"

text \<open>
  The body of \<open>fetch_prices\<close>. \<open>to_frame\<close> stands for the pandas pipeline
  \<open>pd.DataFrame(data).T.reset_index().rename(columns={"index": "coin"})\<close>, which
  gives a frame or raises; \<open>net\<close> is what a GET of each URL returns at this moment.
\<close>

definition fetch_prices_try ::
  "(json \<Rightarrow> exn + frame) \<Rightarrow> (string \<Rightarrow> http_result) \<Rightarrow> string \<Rightarrow> exn + frame fetched" where
  "fetch_prices_try to_frame net url =
     (case net url of
        Raised e \<Rightarrow> Inl e
      | Returned resp \<Rightarrow>
          if status_code resp = 429 then Inr (Error (too_many_requests resp))
          else and_then (raise_for_status resp) (\<lambda>_.
               and_then (json_body resp) (\<lambda>data.
               and_then (to_frame data) (\<lambda>df. Inr (Data df)))))"

definition fetch_prices ::
  "(json \<Rightarrow> exn + frame) \<Rightarrow> (string \<Rightarrow> http_result) \<Rightarrow> string \<Rightarrow> exn + frame fetched" where
  "fetch_prices to_frame net url = except_RequestException (fetch_prices_try to_frame net url)"

section \<open>weather\_live.py: the fetch\<close>

definition WURL :: string where
  "WURL = ''https://api.open-meteo.com/v1/forecast?latitude=39.7392&longitude=-104.9903''
            @ ''&current=temperature_2m,wind_speed_10m''"

record wrow =
  time_col :: time
  temperature_col :: pyfloat
  wind_col :: pyfloat

text \<open>
  The conversions \<open>pd.to_datetime\<close> and \<open>float\<close> on a decoded JSON value are
  parameters: each gives a value or raises. They come with the rounding of the floats.
\<close>

record conversions = floats +
  to_datetime :: "json \<Rightarrow> exn + time"
  py_float :: "json \<Rightarrow> exn + pyfloat"

definition get_weather_try :: "conversions \<Rightarrow> (string \<Rightarrow> http_result) \<Rightarrow> exn + wrow fetched" where
  "get_weather_try cv net =
     (case net WURL of
        Raised e \<Rightarrow> Inl e
      | Returned r \<Rightarrow>
          if status_code r = 429 then Inr (Error (too_many_requests r))
          else and_then (raise_for_status r) (\<lambda>_.
               and_then (json_body r) (\<lambda>body.
               and_then (subscript body ''current'') (\<lambda>j.
               and_then (subscript j ''time'') (\<lambda>jt.
               and_then (to_datetime cv jt) (\<lambda>t.
               and_then (subscript j ''temperature_2m'') (\<lambda>jx.
               and_then (py_float cv jx) (\<lambda>x.
               and_then (subscript j ''wind_speed_10m'') (\<lambda>jw.
               and_then (py_float cv jw) (\<lambda>w.
               Inr (Data \<lparr>time_col = t, temperature_col = x, wind_col = w\<rparr>)))))))))))"

definition get_weather :: "conversions \<Rightarrow> (string \<Rightarrow> http_result) \<Rightarrow> exn + wrow fetched" where
  "get_weather cv net = except_RequestException (get_weather_try cv net)"

section \<open>The cached call\<close>

text \<open>
  Modelled from the spec: the decorator \<open>st.cache_data(ttl=...)\<close> and its
  \<open>clear()\<close> belong to the Streamlit library and are not among the sources. The
  definitions follow the spec's PollCache: an entry per request key holding the stored
  result and the instant it was fetched; a call is a hit when an entry exists and
  \<open>now - fetchedAt < ttl\<close>, and otherwise runs the function body, stores what it
  returned with \<open>fetchedAt = now\<close> and returns it; clearing removes the entries. A body
  that raises stores nothing and the exception reaches the caller. \<open>fetcher_calls\<close>
  counts the runs of the body.
\<close>

record 'v cache_entry =
  stored :: 'v
  fetched_at :: int

record ('k, 'v) poll_cache =
  entries :: "'k \<rightharpoonup> 'v cache_entry"
  fetcher_calls :: nat

text \<open>
  Modelled from the spec: a miss of the Streamlit cache. The body runs once; what it
  returns is stored under the key with the instant of the call.
\<close>

definition cache_miss ::
  "int \<Rightarrow> 'k \<Rightarrow> exn + 'v \<Rightarrow> ('k, 'v) poll_cache \<Rightarrow> (exn + 'v) \<times> ('k, 'v) poll_cache" where
  "cache_miss clock key body c =
     (case body of
        Inl e \<Rightarrow> (Inl e, c\<lparr>fetcher_calls := fetcher_calls c + 1\<rparr>)
      | Inr v \<Rightarrow>
          (Inr v, c\<lparr>entries := (entries c)(key \<mapsto> \<lparr>stored = v, fetched_at = clock\<rparr>),
                     fetcher_calls := fetcher_calls c + 1\<rparr>))"

text \<open>
  Modelled from the spec: a call of a function decorated with \<open>st.cache_data(ttl=...)\<close>,
  the spec's \<open>Get\<close>.
\<close>

definition cache_get ::
  "int \<Rightarrow> int \<Rightarrow> 'k \<Rightarrow> exn + 'v \<Rightarrow> ('k, 'v) poll_cache \<Rightarrow> (exn + 'v) \<times> ('k, 'v) poll_cache" where
  "cache_get ttl clock key body c =
     (case entries c key of
        None \<Rightarrow> cache_miss clock key body c
      | Some e \<Rightarrow>
          if clock - fetched_at e < ttl then (Inr (stored e), c)
          else cache_miss clock key body c)"

text \<open>
  Modelled from the spec: \<open>clear()\<close> of a decorated function, the spec's
  \<open>Invalidate\<close>; it drops every entry of that function.
\<close>

definition cache_clear :: "('k, 'v) poll_cache \<Rightarrow> ('k, 'v) poll_cache" where
  "cache_clear c = c\<lparr>entries := Map.empty\<rparr>"

text \<open>
  The two decorated functions: \<open>@st.cache_data(ttl=300)\<close> on \<open>fetch_prices(url)\<close>,
  keyed by its argument, and \<open>@st.cache_data(ttl=600)\<close> on \<open>get_weather()\<close>, which
  has no argument. The cache clock counts seconds.
\<close>

definition fetch_prices_cached ::
  "(json \<Rightarrow> exn + frame) \<Rightarrow> int \<Rightarrow> (string \<Rightarrow> http_result) \<Rightarrow> string
     \<Rightarrow> (string, frame fetched) poll_cache
     \<Rightarrow> (exn + frame fetched) \<times> (string, frame fetched) poll_cache" where
  "fetch_prices_cached to_frame clock net url c =
     cache_get 300 clock url (fetch_prices to_frame net url) c"

definition get_weather_cached ::
  "conversions \<Rightarrow> int \<Rightarrow> (string \<Rightarrow> http_result)
     \<Rightarrow> (unit, wrow fetched) poll_cache
     \<Rightarrow> (exn + wrow fetched) \<times> (unit, wrow fetched) poll_cache" where
  "get_weather_cached cv clock net c = cache_get 600 clock () (get_weather cv net) c"

section \<open>The rolling history\<close>

record stamped =
  ts :: time

record sample = stamped +
  coin :: string
  price :: pyfloat

record reading = stamped +
  temperature :: "pyfloat option"
  wind :: "pyfloat option"

text \<open>
  The loop of both prune functions:
  \<open>while history and history[0]["ts"] < cutoff: history.popleft()\<close>.
\<close>

fun popleft_while :: "time \<Rightarrow> 'a stamped_scheme list \<Rightarrow> 'a stamped_scheme list" where
  "popleft_while cutoff [] = []"
| "popleft_while cutoff (s # h) = (if ts s < cutoff then popleft_while cutoff h else s # h)"

definition minutes :: "int \<Rightarrow> time" where
  "minutes m = m * 60000000"

definition hours :: "int \<Rightarrow> time" where
  "hours h = h * 3600000000"

definition WINDOW_MINUTES :: int where
  "WINDOW_MINUTES = 30"

definition WINDOW_HOURS :: int where
  "WINDOW_HOURS = 6"

text \<open>The argument \<open>utcnow\<close> is the clock as the function reads it.\<close>

definition prune_history :: "time \<Rightarrow> sample list \<Rightarrow> sample list" where
  "prune_history utcnow h = (let cutoff = utcnow - minutes WINDOW_MINUTES in popleft_while cutoff h)"

definition prune_weather :: "time \<Rightarrow> reading list \<Rightarrow> reading list" where
  "prune_weather utcnow h = (let cutoff = utcnow - hours WINDOW_HOURS in popleft_while cutoff h)"

section \<open>One run of a page\<close>

text \<open>
  What a run of the script takes from outside: the widgets, the network, the clock of
  the cache when the cached function is called, and the two readings of
  \<open>datetime.utcnow()\<close>: the one that stamps samples (line 93 of Home.py, line 71 of
  weather\_live.py) and the one inside the prune function.
\<close>

record run_in =
  button :: bool
  auto_refresh :: bool
  refresh_sec :: int
  cache_clock :: int
  net :: "string \<Rightarrow> http_result"
  utcnow_sample :: time
  utcnow_prune :: time

text \<open>
  How a run ends: at the bottom of the script, by \<open>st.rerun()\<close> after the manual
  button, by \<open>st.rerun()\<close> after the sleep of auto-refresh (with the seconds slept),
  or by an exception.
\<close>

datatype ending = Finished | Rerun_button | Rerun_auto int | Crashed exn

subsection \<open>Home.py\<close>

record home_state =
  price_history :: "sample list"
  prices_cache :: "(string, frame fetched) poll_cache"

definition row_price :: "row \<Rightarrow> exn + pyfloat" where
  "row_price r = (case map_of (snd r) VS of None \<Rightarrow> Inl (KeyError VS) | Some v \<Rightarrow> Inr v)"

text \<open>The loop over \<open>df.iterrows()\<close>; a row that raises leaves the earlier appends in place.\<close>

fun append_rows :: "time \<Rightarrow> frame \<Rightarrow> sample list \<Rightarrow> exn option \<times> sample list" where
  "append_rows now [] h = (None, h)"
| "append_rows now (r # rs) h =
     (case row_price r of
        Inl e \<Rightarrow> (Some e, h)
      | Inr p \<Rightarrow> append_rows now rs (h @ [\<lparr>ts = now, coin = fst r, price = p\<rparr>]))"

text \<open>
  What the price page takes from pandas and from the floats: the pipeline
  \<open>pd.DataFrame(data).T.reset_index().rename(columns={"index": "coin"})\<close> as
  \<open>to_frame\<close>, and \<open>sort_values("ts")\<close> on the rows of the history. The default sort
  of pandas puts the rows in the order of their \<open>ts\<close> and fixes nothing about rows of
  equal \<open>ts\<close>: \<open>sorts_by_ts\<close> is all that is known of it.
\<close>

record home_lib = floats +
  to_frame :: "json \<Rightarrow> exn + frame"
  sort_values :: "sample list \<Rightarrow> sample list"

definition sorts_by_ts :: "(sample list \<Rightarrow> sample list) \<Rightarrow> bool" where
  "sorts_by_ts srt \<longleftrightarrow> (\<forall>xs. sorted (map ts (srt xs)) \<and> mset (srt xs) = mset xs)"

text \<open>\<open>hist_df[hist_df["coin"] == coin].sort_values("ts")\<close>\<close>

definition series_view :: "(sample list \<Rightarrow> sample list) \<Rightarrow> string \<Rightarrow> sample list \<Rightarrow> sample list" where
  "series_view srt c h = srt (filter (\<lambda>s. coin s = c) h)"

text \<open>The metric of one coin (lines 113 to 115 of Home.py) on its view \<open>cdf\<close>.\<close>

definition compute :: "(real \<Rightarrow> pyfloat) \<Rightarrow> sample list \<Rightarrow> pyfloat option \<times> pyfloat option" where
  "compute rnd cdf =
     (let current = (if length cdf \<noteq> 0 then Some (price (cdf ! (length cdf - 1))) else None);
          prev = (if length cdf > 1 then Some (price (cdf ! (length cdf - 2))) else None);
          delta = (case current of
                     None \<Rightarrow> None
                   | Some c \<Rightarrow> (case prev of None \<Rightarrow> None | Some p \<Rightarrow> Some (fsub rnd c p)))
      in (current, delta))"

record home_view =
  h_warning :: "string option"
  h_table :: frame
  h_metrics :: "(string \<times> pyfloat option \<times> pyfloat option) list"
  h_chart :: "sample list"

definition sample_note :: string where
  "sample_note = CHR 0x0A # ''Showing sample data so the demo continues.''"

text \<open>
  Lines 89 to 141 of Home.py, from the snapshot table to the end of the script: \<open>c\<close>
  is the cache after the fetch, \<open>warn\<close> the warning already shown, \<open>df\<close> the
  snapshot and \<open>h0\<close> the history before the append.
\<close>

definition show_prices ::
  "home_lib \<Rightarrow> run_in \<Rightarrow> (string, frame fetched) poll_cache \<Rightarrow> string option \<Rightarrow> frame
     \<Rightarrow> sample list \<Rightarrow> ending \<times> home_view option \<times> home_state" where
  "show_prices lib i c warn df h0 =
     (case append_rows (utcnow_sample i) df h0 of
        (Some e, h) \<Rightarrow> (Crashed e, None, \<lparr>price_history = h, prices_cache = c\<rparr>)
      | (None, h) \<Rightarrow>
          let h' = prune_history (utcnow_prune i) h;
              view = \<lparr>h_warning = warn, h_table = df,
                       h_metrics =
                         map (\<lambda>coin. (coin, compute (round64 lib)
                                               (series_view (sort_values lib) coin h'))) COINS,
                       h_chart = h'\<rparr>
          in if auto_refresh i
             then (Rerun_auto (refresh_sec i), Some view,
                   \<lparr>price_history = h', prices_cache = cache_clear c\<rparr>)
             else (Finished, Some view, \<lparr>price_history = h', prices_cache = c\<rparr>))"

definition run_home ::
  "home_lib \<Rightarrow> run_in \<Rightarrow> home_state \<Rightarrow> ending \<times> home_view option \<times> home_state" where
  "run_home lib i s =
     (if button i then
        (Rerun_button, None, s\<lparr>prices_cache := cache_clear (prices_cache s)\<rparr>)
      else
        (case fetch_prices_cached (to_frame lib) (cache_clock i) (net i) API_URL (prices_cache s) of
           (Inl e, c) \<Rightarrow> (Crashed e, None, s\<lparr>prices_cache := c\<rparr>)
         | (Inr got, c) \<Rightarrow>
             (case got of
                Error err \<Rightarrow>
                  if err \<noteq> [] then
                    show_prices lib i c (Some (err @ sample_note)) SAMPLE_DF (price_history s)
                  else (Crashed (AttributeError ''iterrows''), None, s\<lparr>prices_cache := c\<rparr>)
              | Data df \<Rightarrow> show_prices lib i c None df (price_history s))))"

subsection \<open>weather\_live.py\<close>

record weather_state =
  weather_history :: "reading list"
  weather_cache :: "(unit, wrow fetched) poll_cache"

text \<open>\<open>float(x) if pd.notna(x) else None\<close>\<close>

fun float_or_None :: "pyfloat \<Rightarrow> pyfloat option" where
  "float_or_None NaN = None"
| "float_or_None (Num a) = Some (Num a)"
| "float_or_None PosInf = Some PosInf"
| "float_or_None NegInf = Some NegInf"

definition reading_of :: "wrow \<Rightarrow> reading" where
  "reading_of wdf =
     \<lparr>ts = time_col wdf, temperature = float_or_None (temperature_col wdf),
      wind = float_or_None (wind_col wdf)\<rparr>"

definition fallback_row :: "time \<Rightarrow> wrow" where
  "fallback_row now = \<lparr>time_col = now, temperature_col = NaN, wind_col = NaN\<rparr>"

text \<open>
  \<open>pd.isna\<close> on a cell of the history frame: a cell is missing where the reading holds
  \<open>None\<close>, and where it holds NaN.
\<close>

fun isna :: "pyfloat option \<Rightarrow> bool" where
  "isna None = True"
| "isna (Some x) = (\<not> notna x)"

text \<open>
  The value of a metric, \<open>current\<close> unless \<open>pd.isna(current)\<close>, and its delta,
  \<open>None if (prev is None or pd.isna(prev) or pd.isna(current)) else (current - prev)\<close>.
\<close>

definition value_shown :: "pyfloat option \<Rightarrow> pyfloat option" where
  "value_shown current = (if isna current then None else current)"

definition delta_shown :: "(real \<Rightarrow> pyfloat) \<Rightarrow> pyfloat option \<Rightarrow> pyfloat option \<Rightarrow> pyfloat option" where
  "delta_shown rnd prev current =
     (case prev of
        None \<Rightarrow> None
      | Some p \<Rightarrow>
          (case current of
             None \<Rightarrow> None
           | Some c \<Rightarrow> if notna p \<and> notna c then Some (fsub rnd c p) else None))"

text \<open>
  The metric of one column of a history that is not empty; \<open>prev\<close> is \<open>None\<close> when
  there is no second-to-last row.
\<close>

definition column_metric :: "(real \<Rightarrow> pyfloat) \<Rightarrow> pyfloat option list \<Rightarrow> pyfloat option \<times> pyfloat option" where
  "column_metric rnd col =
     (let current = last col;
          prev = (if length col > 1 then col ! (length col - 2) else None)
      in (value_shown current, delta_shown rnd prev current))"

text \<open>\<open>None\<close> is the branch that shows "No readings yet" instead of the two metrics.\<close>

definition weather_metrics ::
  "(real \<Rightarrow> pyfloat) \<Rightarrow> reading list
     \<Rightarrow> ((pyfloat option \<times> pyfloat option) \<times> (pyfloat option \<times> pyfloat option)) option" where
  "weather_metrics rnd hist =
     (if hist \<noteq> [] then
        Some (column_metric rnd (map temperature hist), column_metric rnd (map wind hist))
      else None)"

record weather_view =
  w_warning :: "string option"
  w_table :: wrow
  w_metrics :: "((pyfloat option \<times> pyfloat option) \<times> (pyfloat option \<times> pyfloat option)) option"
  w_chart :: "reading list"

text \<open>
  Lines 74 to 138 of weather\_live.py, from the table of the current reading to the end
  of the script.
\<close>

definition show_weather ::
  "conversions \<Rightarrow> run_in \<Rightarrow> (unit, wrow fetched) poll_cache \<Rightarrow> string option \<Rightarrow> wrow
     \<Rightarrow> reading list \<Rightarrow> ending \<times> weather_view option \<times> weather_state" where
  "show_weather cv i c warn wdf h0 =
     (let h = h0 @ [reading_of wdf];
          h' = prune_weather (utcnow_prune i) h;
          view = \<lparr>w_warning = warn, w_table = wdf,
                   w_metrics = weather_metrics (round64 cv) h',
                   w_chart = filter (\<lambda>r. temperature r \<noteq> None) h'\<rparr>
      in if auto_refresh i
         then (Rerun_auto (refresh_sec i), Some view,
               \<lparr>weather_history = h', weather_cache = cache_clear c\<rparr>)
         else (Finished, Some view, \<lparr>weather_history = h', weather_cache = c\<rparr>))"

definition run_weather ::
  "conversions \<Rightarrow> run_in \<Rightarrow> weather_state \<Rightarrow> ending \<times> weather_view option \<times> weather_state" where
  "run_weather cv i s =
     (if button i then
        (Rerun_button, None, s\<lparr>weather_cache := cache_clear (weather_cache s)\<rparr>)
      else
        (case get_weather_cached cv (cache_clock i) (net i) (weather_cache s) of
           (Inl e, c) \<Rightarrow> (Crashed e, None, s\<lparr>weather_cache := c\<rparr>)
         | (Inr got, c) \<Rightarrow>
             (case got of
                Error werr \<Rightarrow>
                  if werr \<noteq> [] then
                    show_weather cv i c (Some werr) (fallback_row (utcnow_sample i))
                      (weather_history s)
                  else
                    (Crashed (TypeError ''object is not subscriptable''), None,
                     s\<lparr>weather_cache := c\<rparr>)
              | Data wdf \<Rightarrow> show_weather cv i c None wdf (weather_history s))))"


fun runs_weather :: "conversions \<Rightarrow> run_in list \<Rightarrow> weather_state \<Rightarrow> weather_state" where
  "runs_weather cv [] s = s"
| "runs_weather cv (i # is) s = runs_weather cv is (snd (snd (run_weather cv i s)))"

section \<open>A new session and example inputs\<close>

text \<open>A new process has nothing cached; a new session starts with an empty deque.\<close>

definition empty_cache :: "('k, 'v) poll_cache" where
  "empty_cache = \<lparr>entries = Map.empty, fetcher_calls = 0\<rparr>"

definition new_home_session :: home_state where
  "new_home_session = \<lparr>price_history = [], prices_cache = empty_cache\<rparr>"

definition new_weather_session :: weather_state where
  "new_weather_session = \<lparr>weather_history = [], weather_cache = empty_cache\<rparr>"

text \<open>The network: down, or answering every GET with status 200 and the given JSON body.\<close>

definition offline :: "string \<Rightarrow> http_result" where
  "offline url = Raised (RequestException ''connection refused'')"

definition serving :: "json \<Rightarrow> string \<Rightarrow> http_result" where
  "serving body url =
     Returned \<lparr>status_code = 200, headers = [], error_text = [], json_body = Inr body\<rparr>"

text \<open>A run with no widget touched: the slider at its default of 30 seconds.\<close>

definition idle :: run_in where
  "idle = \<lparr>button = False, auto_refresh = False, refresh_sec = 30, cache_clock = 0,
           net = offline, utcnow_sample = 0, utcnow_prune = 0\<rparr>"

text \<open>
  The examples subtract whole numbers far below \<open>2 ^ 53\<close>, on which binary64
  arithmetic is exact: their rounding leaves the result as it is.
\<close>

definition unrounded :: "real \<Rightarrow> pyfloat" where
  "unrounded r = Num r"

text \<open>
  A price payload \<open>{"bitcoin": {"usd": 70000}, "ethereum": {"usd": 3600}}\<close> and a
  payload \<open>{"bitcoin": {"usd": 68000}, "ethereum": {}}\<close> that lacks a price, each with
  the frame pandas builds from it (NaN where a cell has no value), and a weather payload
  with the conversions of its fields.
\<close>

definition prices_payload :: json where
  "prices_payload =
     JObj [(''bitcoin'', JObj [(''usd'', JNum 70000)]), (''ethereum'', JObj [(''usd'', JNum 3600)])]"

definition prices_frame :: frame where
  "prices_frame = [(''bitcoin'', [(''usd'', Num 70000)]), (''ethereum'', [(''usd'', Num 3600)])]"

definition partial_payload :: json where
  "partial_payload = JObj [(''bitcoin'', JObj [(''usd'', JNum 68000)]), (''ethereum'', JObj [])]"

definition partial_frame :: frame where
  "partial_frame = [(''bitcoin'', [(''usd'', Num 68000)]), (''ethereum'', [(''usd'', NaN)])]"

definition frame_of_payload :: "json \<Rightarrow> exn + frame" where
  "frame_of_payload data =
     (if data = prices_payload then Inr prices_frame
      else if data = partial_payload then Inr partial_frame
      else Inl (ValueError ''DataFrame constructor not properly called!''))"

definition example_lib :: home_lib where
  "example_lib =
     \<lparr>round64 = unrounded, to_frame = frame_of_payload, sort_values = sort_key ts\<rparr>"

definition weather_payload :: json where
  "weather_payload =
     JObj [(''current'',
            JObj [(''time'', JStr ''1970-01-01T00:15''), (''temperature_2m'', JNum 5),
                  (''wind_speed_10m'', JNum 3)])]"

definition field_conversions :: conversions where
  "field_conversions =
     \<lparr>round64 = unrounded,
      to_datetime = (\<lambda>j. if j = JStr ''1970-01-01T00:15'' then Inr (minutes 15)
                          else Inl (ValueError ''Unknown datetime string format'')),
      py_float = (\<lambda>j. case j of JNum r \<Rightarrow> Inr (Num r)
                       | JNull \<Rightarrow> Inl (TypeError ''float() argument must be a string or a real number'')
                       | JBool b \<Rightarrow> Inr (Num (if b then 1 else 0))
                       | JStr t \<Rightarrow> Inl (ValueError ''could not convert string to float'')
                       | JArr xs \<Rightarrow> Inl (TypeError ''float() argument must be a string or a real number'')
                       | JObj kvs \<Rightarrow> Inl (TypeError ''float() argument must be a string or a real number''))\<rparr>"

section \<open>The history window\<close>

lemma popleft_while_dropWhile:
  "popleft_while cutoff h = dropWhile (\<lambda>s. ts s < cutoff) h"
  by (induction h) simp_all

lemma dropWhile_sorted_filter:
  "sorted (map f xs) \<Longrightarrow> dropWhile (\<lambda>s. f s < (c::int)) xs = filter (\<lambda>s. \<not> f s < c) xs"
proof (induction xs)
  case Nil
  then show ?case by simp
next
  case (Cons x xs)
  show ?case
  proof (cases "f x < c")
    case True
    with Cons show ?thesis by simp
  next
    case False
    with Cons.prems have "\<forall>y\<in>set xs. \<not> f y < c" by fastforce
    then have "filter (\<lambda>s. \<not> f s < c) xs = xs" by (simp add: filter_id_conv)
    with False show ?thesis by simp
  qed
qed

text \<open>
  C2, as the code has it. Both prune functions remove the longest leading run of samples
  with \<open>ts < now - window\<close> and nothing else: the history is that run followed by what
  is kept, in the original order. Pruning again with the same \<open>now\<close> changes nothing.
  When the history is ordered by timestamp, the samples removed are exactly those with
  \<open>ts < now - window\<close>.
\<close>

theorem prune_leading_run:
  "prune_history now h = dropWhile (\<lambda>s. ts s < now - minutes WINDOW_MINUTES) h
   \<and> prune_weather now w = dropWhile (\<lambda>s. ts s < now - hours WINDOW_HOURS) w
   \<and> h = takeWhile (\<lambda>s. ts s < now - minutes WINDOW_MINUTES) h @ prune_history now h
   \<and> w = takeWhile (\<lambda>s. ts s < now - hours WINDOW_HOURS) w @ prune_weather now w
   \<and> prune_history now (prune_history now h) = prune_history now h
   \<and> prune_weather now (prune_weather now w) = prune_weather now w
   \<and> (sorted (map ts h) \<longrightarrow>
        prune_history now h = filter (\<lambda>s. \<not> ts s < now - minutes WINDOW_MINUTES) h)
   \<and> (sorted (map ts w) \<longrightarrow>
        prune_weather now w = filter (\<lambda>s. \<not> ts s < now - hours WINDOW_HOURS) w)"
  by (simp add: prune_history_def prune_weather_def popleft_while_dropWhile
      dropWhile_sorted_filter)

text \<open>
  A window of 30 minutes with samples at minutes 0, 10, 20 and 40, pruned at minute 40:
  the sample at minute 0 goes, the one at the cutoff stays. A window of 6 hours with
  readings at hours 0 and 7, pruned at hour 7.
\<close>

theorem prune_leading_run_witness:
  "sorted (map ts [\<lparr>ts = 0, coin = ''bitcoin'', price = Num 1\<rparr>,
                   \<lparr>ts = minutes 10, coin = ''bitcoin'', price = Num 2\<rparr>,
                   \<lparr>ts = minutes 20, coin = ''bitcoin'', price = Num 3\<rparr>,
                   \<lparr>ts = minutes 40, coin = ''bitcoin'', price = Num 4\<rparr>])
   \<and> prune_history (minutes 40)
        [\<lparr>ts = 0, coin = ''bitcoin'', price = Num 1\<rparr>,
         \<lparr>ts = minutes 10, coin = ''bitcoin'', price = Num 2\<rparr>,
         \<lparr>ts = minutes 20, coin = ''bitcoin'', price = Num 3\<rparr>,
         \<lparr>ts = minutes 40, coin = ''bitcoin'', price = Num 4\<rparr>]
      = [\<lparr>ts = minutes 10, coin = ''bitcoin'', price = Num 2\<rparr>,
         \<lparr>ts = minutes 20, coin = ''bitcoin'', price = Num 3\<rparr>,
         \<lparr>ts = minutes 40, coin = ''bitcoin'', price = Num 4\<rparr>]
   \<and> sorted (map ts [\<lparr>ts = 0, temperature = Some (Num 1), wind = None\<rparr>,
                     \<lparr>ts = hours 7, temperature = Some (Num 2), wind = None\<rparr>])
   \<and> prune_weather (hours 7)
        [\<lparr>ts = 0, temperature = Some (Num 1), wind = None\<rparr>,
         \<lparr>ts = hours 7, temperature = Some (Num 2), wind = None\<rparr>]
      = [\<lparr>ts = hours 7, temperature = Some (Num 2), wind = None\<rparr>]"
  using prune_leading_run [of "minutes 40"
      "[\<lparr>ts = 0, coin = ''bitcoin'', price = Num 1\<rparr>,
        \<lparr>ts = minutes 10, coin = ''bitcoin'', price = Num 2\<rparr>,
        \<lparr>ts = minutes 20, coin = ''bitcoin'', price = Num 3\<rparr>,
        \<lparr>ts = minutes 40, coin = ''bitcoin'', price = Num 4\<rparr>]"
      "[]"]
    prune_leading_run [of "hours 7" "[]"
      "[\<lparr>ts = 0, temperature = Some (Num 1), wind = None\<rparr>,
        \<lparr>ts = hours 7, temperature = Some (Num 2), wind = None\<rparr>]"]
  by (simp add: minutes_def hours_def WINDOW_MINUTES_def WINDOW_HOURS_def)

text \<open>
  A history that is not ordered by timestamp: the reading at the front is inside the
  window, so the loop stops at once and the older reading behind it is kept.
\<close>

theorem prune_removes_exactly_counterexample:
  "prune_weather (hours 6 + 5)
     [\<lparr>ts = 10, temperature = None, wind = None\<rparr>,
      \<lparr>ts = 0, temperature = Some (Num 1), wind = Some (Num 2)\<rparr>]
   \<noteq> filter (\<lambda>s. \<not> ts s < (hours 6 + 5) - hours WINDOW_HOURS)
     [\<lparr>ts = 10, temperature = None, wind = None\<rparr>,
      \<lparr>ts = 0, temperature = Some (Num 1), wind = Some (Num 2)\<rparr>]"
  by (simp add: prune_weather_def hours_def WINDOW_HOURS_def)

section \<open>The metrics\<close>

lemma compute_two:
  "compute rnd (xs @ [p, c]) = (Some (price c), Some (fsub rnd (price c) (price p)))"
  by (simp add: compute_def nth_append)

lemma column_metric_two:
  "column_metric rnd (xs @ [p, c]) = (value_shown c, delta_shown rnd p c)"
  by (simp add: column_metric_def nth_append)

text \<open>
  C3, as the code has it. On the price page the metric of an empty view has no current
  value and no delta; of a view of one sample, that sample's price and no delta; of a
  longer view, the last price and the float difference of the last price and the one
  before it. On the weather page an empty history shows no metric at all; one reading
  gives its value and no delta; with two or more the delta is the float difference of
  the last value and the one before it. The float difference of two numbers is their
  exact difference rounded once by the float arithmetic, and nothing rounds it again.
  On the weather page a missing value, \<open>None\<close> or NaN, is shown as absent and makes
  the delta absent; a failed fetch is recorded as a reading with both values absent.
\<close>

theorem metrics_by_cases:
  "compute rnd [] = (None, None)
   \<and> compute rnd [s] = (Some (price s), None)
   \<and> compute rnd (xs @ [p, c]) = (Some (price c), Some (fsub rnd (price c) (price p)))
   \<and> fsub rnd (Num a) (Num b) = rnd (a - b)
   \<and> weather_metrics rnd [] = None
   \<and> weather_metrics rnd [r] = Some ((value_shown (temperature r), None), (value_shown (wind r), None))
   \<and> weather_metrics rnd (rs @ [q, r]) =
       Some ((value_shown (temperature r), delta_shown rnd (temperature q) (temperature r)),
             (value_shown (wind r), delta_shown rnd (wind q) (wind r)))
   \<and> delta_shown rnd (Some (Num a)) (Some (Num b)) = Some (rnd (b - a))
   \<and> value_shown (Some (Num a)) = Some (Num a)
   \<and> value_shown None = None \<and> value_shown (Some NaN) = None
   \<and> delta_shown rnd None y = None \<and> delta_shown rnd x None = None
   \<and> delta_shown rnd (Some NaN) y = None \<and> delta_shown rnd x (Some NaN) = None
   \<and> temperature (reading_of (fallback_row now)) = None
   \<and> wind (reading_of (fallback_row now)) = None"
proof -
  have "compute rnd [] = (None, None)" "compute rnd [s] = (Some (price s), None)"
    by (simp_all add: compute_def)
  moreover have "weather_metrics rnd [] = None"
    "weather_metrics rnd [r]
       = Some ((value_shown (temperature r), None), (value_shown (wind r), None))"
    by (simp_all add: weather_metrics_def column_metric_def delta_shown_def)
  moreover have "weather_metrics rnd (rs @ [q, r]) =
       Some ((value_shown (temperature r), delta_shown rnd (temperature q) (temperature r)),
             (value_shown (wind r), delta_shown rnd (wind q) (wind r)))"
    using column_metric_two [of rnd "map temperature rs" "temperature q" "temperature r"]
      column_metric_two [of rnd "map wind rs" "wind q" "wind r"]
    by (simp add: weather_metrics_def)
  moreover have "delta_shown rnd None y = None" "delta_shown rnd x None = None"
    "delta_shown rnd (Some NaN) y = None" "delta_shown rnd x (Some NaN) = None"
    by (simp_all add: delta_shown_def split: option.splits)
  moreover have "temperature (reading_of (fallback_row now)) = None"
    "wind (reading_of (fallback_row now)) = None"
    by (simp_all add: reading_of_def fallback_row_def)
  ultimately show ?thesis
    by (simp add: compute_two delta_shown_def value_shown_def)
qed

text \<open>
  A frame that lacks the price of one coin, built from the payload
  \<open>{"bitcoin": {"usd": 68000}, "ethereum": {}}\<close>, on the first run of a session: the
  missing price is appended as NaN and the metric of the coin shows it as its current
  value, present and not absent. On a view of a number after a NaN the delta is NaN.
\<close>

theorem missing_price_shown_counterexample:
  "map_option h_metrics
     (fst (snd (run_home example_lib (idle\<lparr>net := serving partial_payload\<rparr>) new_home_session)))
     = Some [(''bitcoin'', Some (Num 68000), None), (''ethereum'', Some NaN, None)]
   \<and> compute unrounded [\<lparr>ts = 0, coin = ''ethereum'', price = NaN\<rparr>,
                        \<lparr>ts = 1, coin = ''ethereum'', price = Num 3500\<rparr>]
     = (Some (Num 3500), Some NaN)"
  by (simp add: run_home_def show_prices_def fetch_prices_cached_def cache_get_def
      cache_miss_def fetch_prices_def fetch_prices_try_def except_RequestException_def
      and_then_def raise_for_status_def serving_def idle_def new_home_session_def
      empty_cache_def example_lib_def frame_of_payload_def partial_payload_def
      prices_payload_def partial_frame_def row_price_def VS_def prune_history_def
      minutes_def WINDOW_MINUTES_def Let_def COINS_def series_view_def compute_def)

section \<open>The cache: hits and invalidation\<close>

lemma cache_get_hit:
  "entries c key = Some en \<Longrightarrow> clock - fetched_at en < ttl \<Longrightarrow>
     cache_get ttl clock key body c = (Inr (stored en), c)"
  by (simp add: cache_get_def)

lemma cache_get_cleared:
  "cache_get ttl clock key body (cache_clear c) = cache_miss clock key body (cache_clear c)"
  by (simp add: cache_get_def cache_clear_def)

lemma cache_miss_calls:
  "fetcher_calls (snd (cache_miss clock key body c)) = fetcher_calls c + 1"
  by (simp add: cache_miss_def split: sum.splits)

lemma cache_miss_result: "fst (cache_miss clock key body c) = body"
  by (simp add: cache_miss_def split: sum.splits)

lemma cache_get_fetched:
  assumes "cache_get ttl t key body c = (Inr v, c')"
    and "fetcher_calls c' = fetcher_calls c + 1"
  shows "entries c' key = Some \<lparr>stored = v, fetched_at = t\<rparr>"
  using assms
  by (auto simp: cache_get_def cache_miss_def split: option.splits if_splits sum.splits)

text \<open>
  C1. For every TTL and every elapsed time \<open>e\<close> below it: when a call of the cached
  function ran the body (a miss) and returned a result, a second call with the same key
  \<open>e\<close> later returns that stored result and leaves the cache as it was, the count of
  body runs included, whatever the body would give now. The same for the two decorated
  functions with their TTLs of 300 and 600 seconds.
\<close>

theorem second_get_is_hit:
  "(cache_get ttl t key body c = (Inr v, c') \<longrightarrow> fetcher_calls c' = fetcher_calls c + 1
      \<longrightarrow> e < ttl \<longrightarrow> cache_get ttl (t + e) key body' c' = (Inr v, c'))
   \<and> (fetch_prices_cached f t n url pc = (Inr pv, pc')
      \<longrightarrow> fetcher_calls pc' = fetcher_calls pc + 1
      \<longrightarrow> e < 300 \<longrightarrow> fetch_prices_cached f' (t + e) n' url pc' = (Inr pv, pc'))
   \<and> (get_weather_cached cv t wn wc = (Inr wv, wc')
      \<longrightarrow> fetcher_calls wc' = fetcher_calls wc + 1
      \<longrightarrow> e < 600 \<longrightarrow> get_weather_cached cv' (t + e) wn' wc' = (Inr wv, wc'))"
proof -
  have hit: "cache_get l (t + e) k b' d' = (Inr x, d')"
    if "cache_get l t k b d = (Inr x, d')" "fetcher_calls d' = fetcher_calls d + 1" "e < l"
    for l :: int and k :: 'k and b b' :: "exn + 'x" and d d' x
    using cache_get_fetched [OF that(1,2)] that(3) by (simp add: cache_get_hit)
  show ?thesis
    unfolding fetch_prices_cached_def get_weather_cached_def
    by (intro conjI impI hit)
qed

text \<open>
  A first call at second 0 on an empty cache and a second call at second 10: for a
  plain key, for the prices (the network is down at the second call), and for the
  weather (the cached result is the error message of the first call).
\<close>

theorem second_get_is_hit_witness:
  "cache_get 300 0 ''k'' (Inr (1::nat)) empty_cache
     = (Inr 1, \<lparr>entries = [''k'' \<mapsto> \<lparr>stored = 1, fetched_at = 0\<rparr>], fetcher_calls = 1\<rparr>)
   \<and> (10::int) < 300
   \<and> cache_get 300 (0 + 10) ''k'' (Inl (KeyError []))
        \<lparr>entries = [''k'' \<mapsto> \<lparr>stored = 1::nat, fetched_at = 0\<rparr>], fetcher_calls = 1\<rparr>
     = (Inr 1, \<lparr>entries = [''k'' \<mapsto> \<lparr>stored = 1, fetched_at = 0\<rparr>], fetcher_calls = 1\<rparr>)
   \<and> fetch_prices_cached frame_of_payload 0 (serving prices_payload) API_URL empty_cache
     = (Inr (Data prices_frame),
        \<lparr>entries = [API_URL \<mapsto> \<lparr>stored = Data prices_frame, fetched_at = 0\<rparr>], fetcher_calls = 1\<rparr>)
   \<and> fetch_prices_cached frame_of_payload (0 + 10) offline API_URL
        \<lparr>entries = [API_URL \<mapsto> \<lparr>stored = Data prices_frame, fetched_at = 0\<rparr>], fetcher_calls = 1\<rparr>
     = (Inr (Data prices_frame),
        \<lparr>entries = [API_URL \<mapsto> \<lparr>stored = Data prices_frame, fetched_at = 0\<rparr>], fetcher_calls = 1\<rparr>)
   \<and> get_weather_cached field_conversions 0 offline empty_cache
     = (Inr (Error ''Network/HTTP error: connection refused''),
        \<lparr>entries = [() \<mapsto> \<lparr>stored = Error ''Network/HTTP error: connection refused'', fetched_at = 0\<rparr>],
         fetcher_calls = 1\<rparr>)
   \<and> get_weather_cached field_conversions (0 + 10) (serving weather_payload)
        \<lparr>entries = [() \<mapsto> \<lparr>stored = Error ''Network/HTTP error: connection refused'', fetched_at = 0\<rparr>],
         fetcher_calls = 1\<rparr>
     = (Inr (Error ''Network/HTTP error: connection refused''),
        \<lparr>entries = [() \<mapsto> \<lparr>stored = Error ''Network/HTTP error: connection refused'', fetched_at = 0\<rparr>],
         fetcher_calls = 1\<rparr>)"
proof -
  have g: "cache_get 300 0 ''k'' (Inr (1::nat)) empty_cache
     = (Inr 1, \<lparr>entries = [''k'' \<mapsto> \<lparr>stored = 1, fetched_at = 0\<rparr>], fetcher_calls = 1\<rparr>)"
    by (simp add: cache_get_def cache_miss_def empty_cache_def)
  have p: "fetch_prices_cached frame_of_payload 0 (serving prices_payload) API_URL empty_cache
     = (Inr (Data prices_frame),
        \<lparr>entries = [API_URL \<mapsto> \<lparr>stored = Data prices_frame, fetched_at = 0\<rparr>], fetcher_calls = 1\<rparr>)"
    by (simp add: fetch_prices_cached_def cache_get_def cache_miss_def empty_cache_def
        fetch_prices_def fetch_prices_try_def serving_def raise_for_status_def and_then_def
        frame_of_payload_def except_RequestException_def)
  have w: "get_weather_cached field_conversions 0 offline empty_cache
     = (Inr (Error ''Network/HTTP error: connection refused''),
        \<lparr>entries = [() \<mapsto> \<lparr>stored = Error ''Network/HTTP error: connection refused'', fetched_at = 0\<rparr>],
         fetcher_calls = 1\<rparr>)"
    by (simp add: get_weather_cached_def cache_get_def cache_miss_def empty_cache_def
        get_weather_def get_weather_try_def offline_def except_RequestException_def)
  have c: "fetcher_calls \<lparr>entries = m, fetcher_calls = 1\<rparr> = fetcher_calls (empty_cache :: ('k, 'v) poll_cache) + 1"
    for m :: "'k \<rightharpoonup> 'v cache_entry"
    by (simp add: empty_cache_def)
  have e: "(10::int) < 300" "(10::int) < 600" by simp_all
  note t = second_get_is_hit [where ttl = 300 and t = 0 and key = "''k''" and body = "Inr (1::nat)"
      and c = empty_cache and v = 1 and e = 10 and body' = "Inl (KeyError [])"
      and c' = "\<lparr>entries = [''k'' \<mapsto> \<lparr>stored = 1, fetched_at = 0\<rparr>], fetcher_calls = 1\<rparr>"
      and f = frame_of_payload and n = "serving prices_payload" and url = API_URL
      and pc = empty_cache and pv = "Data prices_frame" and f' = frame_of_payload and n' = offline
      and pc' = "\<lparr>entries = [API_URL \<mapsto> \<lparr>stored = Data prices_frame, fetched_at = 0\<rparr>],
                  fetcher_calls = 1\<rparr>"
      and cv = field_conversions and wn = offline and wc = empty_cache
      and wv = "Error ''Network/HTTP error: connection refused''"
      and wc' = "\<lparr>entries = [() \<mapsto> \<lparr>stored = Error ''Network/HTTP error: connection refused'',
                                     fetched_at = 0\<rparr>], fetcher_calls = 1\<rparr>"
      and cv' = field_conversions and wn' = "serving weather_payload"]
  have t1: "cache_get 300 (0 + 10) ''k'' (Inl (KeyError []))
        \<lparr>entries = [''k'' \<mapsto> \<lparr>stored = 1::nat, fetched_at = 0\<rparr>], fetcher_calls = 1\<rparr>
     = (Inr 1, \<lparr>entries = [''k'' \<mapsto> \<lparr>stored = 1, fetched_at = 0\<rparr>], fetcher_calls = 1\<rparr>)"
    by (rule t [THEN conjunct1, rule_format, OF g c e(1)])
  have t2: "fetch_prices_cached frame_of_payload (0 + 10) offline API_URL
        \<lparr>entries = [API_URL \<mapsto> \<lparr>stored = Data prices_frame, fetched_at = 0\<rparr>], fetcher_calls = 1\<rparr>
     = (Inr (Data prices_frame),
        \<lparr>entries = [API_URL \<mapsto> \<lparr>stored = Data prices_frame, fetched_at = 0\<rparr>], fetcher_calls = 1\<rparr>)"
    by (rule t [THEN conjunct2, THEN conjunct1, rule_format, OF p c e(1)])
  have t3: "get_weather_cached field_conversions (0 + 10) (serving weather_payload)
        \<lparr>entries = [() \<mapsto> \<lparr>stored = Error ''Network/HTTP error: connection refused'', fetched_at = 0\<rparr>],
         fetcher_calls = 1\<rparr>
     = (Inr (Error ''Network/HTTP error: connection refused''),
        \<lparr>entries = [() \<mapsto> \<lparr>stored = Error ''Network/HTTP error: connection refused'', fetched_at = 0\<rparr>],
         fetcher_calls = 1\<rparr>)"
    by (rule t [THEN conjunct2, THEN conjunct2, rule_format, OF w c e(2)])
  from g p w t1 t2 t3 e(1) show ?thesis by (intro conjI)
qed


lemma run_home_calls:
  "\<not> button i \<Longrightarrow>
   fetcher_calls (prices_cache (snd (snd (run_home f i s)))) =
   fetcher_calls
     (snd (fetch_prices_cached (to_frame f) (cache_clock i) (net i) API_URL (prices_cache s)))"
  by (simp add: run_home_def show_prices_def Let_def cache_clear_def
      split: prod.splits sum.splits fetched.splits option.splits)

lemma run_weather_calls:
  "\<not> button i \<Longrightarrow>
   fetcher_calls (weather_cache (snd (snd (run_weather cv i s)))) =
   fetcher_calls (snd (get_weather_cached cv (cache_clock i) (net i) (weather_cache s)))"
  by (simp add: run_weather_def show_weather_def Let_def cache_clear_def
      split: prod.splits sum.splits fetched.splits option.splits)

text \<open>
  C5. A call right after \<open>clear()\<close> runs the body once and returns what it gives,
  whatever was cached and whatever the TTL and the clock are. On both pages the run in
  which the manual button is pressed clears the cache and ends by \<open>st.rerun()\<close>, and
  the run after it calls the network exactly once more.
\<close>

theorem get_after_invalidate_fetches:
  "fetcher_calls (snd (cache_get ttl clock key body (cache_clear c))) = fetcher_calls c + 1
   \<and> fst (cache_get ttl clock key body (cache_clear c)) = body
   \<and> (button i \<longrightarrow>
        run_home f i s = (Rerun_button, None, s\<lparr>prices_cache := cache_clear (prices_cache s)\<rparr>))
   \<and> (button i \<longrightarrow> \<not> button j \<longrightarrow>
        fetcher_calls (prices_cache (snd (snd (run_home f j (snd (snd (run_home f i s)))))))
          = fetcher_calls (prices_cache s) + 1)
   \<and> (button i \<longrightarrow>
        run_weather cv i w = (Rerun_button, None, w\<lparr>weather_cache := cache_clear (weather_cache w)\<rparr>))
   \<and> (button i \<longrightarrow> \<not> button j \<longrightarrow>
        fetcher_calls (weather_cache (snd (snd (run_weather cv j (snd (snd (run_weather cv i w)))))))
          = fetcher_calls (weather_cache w) + 1)"
proof -
  have a: "fetcher_calls (snd (cache_get l t k b (cache_clear d))) = fetcher_calls d + 1"
    for l t and k :: 'k and b :: "exn + 'x" and d
    by (simp add: cache_get_cleared cache_miss_calls) (simp add: cache_clear_def)
  have b: "fst (cache_get ttl clock key body (cache_clear c)) = body"
    by (simp add: cache_get_cleared cache_miss_result)
  have h1: "run_home f i s = (Rerun_button, None, s\<lparr>prices_cache := cache_clear (prices_cache s)\<rparr>)"
    if "button i" using that by (simp add: run_home_def)
  have w1: "run_weather cv i w = (Rerun_button, None, w\<lparr>weather_cache := cache_clear (weather_cache w)\<rparr>)"
    if "button i" using that by (simp add: run_weather_def)
  have h2: "fetcher_calls (prices_cache (snd (snd (run_home f j (snd (snd (run_home f i s)))))))
          = fetcher_calls (prices_cache s) + 1" if "button i" "\<not> button j"
    using that by (simp add: h1 run_home_calls fetch_prices_cached_def a)
  have w2: "fetcher_calls (weather_cache (snd (snd (run_weather cv j (snd (snd (run_weather cv i w)))))))
          = fetcher_calls (weather_cache w) + 1" if "button i" "\<not> button j"
    using that by (simp add: w1 run_weather_calls get_weather_cached_def a)
  show ?thesis
    by (intro conjI impI a b h1 h2 w1 w2)
qed

text \<open>
  The button pressed while a result fetched at second 0 is still cached, then the rerun
  at second 0: one more run of the body on each page.
\<close>

theorem get_after_invalidate_fetches_witness:
  "button (idle\<lparr>button := True\<rparr>) \<and> \<not> button idle
   \<and> fetcher_calls
        (prices_cache (snd (snd (run_home example_lib idle (snd (snd
           (run_home example_lib (idle\<lparr>button := True\<rparr>)
              \<lparr>price_history = [],
               prices_cache = \<lparr>entries = [API_URL \<mapsto> \<lparr>stored = Data prices_frame, fetched_at = 0\<rparr>],
                               fetcher_calls = 1\<rparr>\<rparr>)))))))
       = 2
   \<and> fetcher_calls
        (weather_cache (snd (snd (run_weather field_conversions idle (snd (snd
           (run_weather field_conversions (idle\<lparr>button := True\<rparr>)
              \<lparr>weather_history = [],
               weather_cache = \<lparr>entries = [() \<mapsto> \<lparr>stored = Error ''x'', fetched_at = 0\<rparr>],
                                fetcher_calls = 1\<rparr>\<rparr>)))))))
       = 2"
proof -
  have b: "button (idle\<lparr>button := True\<rparr>)" "\<not> button idle"
    by (simp_all add: idle_def)
  note t = get_after_invalidate_fetches [where i = "idle\<lparr>button := True\<rparr>" and j = idle
      and f = example_lib and cv = field_conversions
      and s = "\<lparr>price_history = [],
               prices_cache = \<lparr>entries = [API_URL \<mapsto> \<lparr>stored = Data prices_frame, fetched_at = 0\<rparr>],
                               fetcher_calls = 1\<rparr>\<rparr>"
      and w = "\<lparr>weather_history = [],
               weather_cache = \<lparr>entries = [() \<mapsto> \<lparr>stored = Error ''x'', fetched_at = 0\<rparr>],
                                fetcher_calls = 1\<rparr>\<rparr>"]
  note h = t [THEN conjunct2, THEN conjunct2, THEN conjunct2, THEN conjunct1, rule_format, OF b]
  note w = t [THEN conjunct2, THEN conjunct2, THEN conjunct2, THEN conjunct2, THEN conjunct2,
      rule_format, OF b]
  from b h w show ?thesis by simp
qed

section \<open>Exceptions of the fetch\<close>

lemma too_many_requests_any_case:
  "too_many_requests \<lparr>status_code = 429, headers = [(''retry-after'', ''30'')], error_text = [],
                       json_body = Inl (ValueError [])\<rparr>
     = ''429 Too Many Requests '' @ emdash @ '' try again after 30s''"
  by (simp add: too_many_requests_def headers_get_def lower_def)

text \<open>
  C4. A response with status 200 whose JSON body is \<open>{}\<close>: \<open>r.json()["current"]\<close>
  raises \<open>KeyError\<close>, which is not a \<open>RequestException\<close>, so \<open>get_weather\<close>
  raises instead of returning an error message. Likewise \<open>fetch_prices\<close> when pandas
  refuses the body, here \<open>{"bitcoin": 68000}\<close>.
\<close>

theorem fetch_raises_on_unexpected_payload:
  "get_weather cv
     (\<lambda>url. Returned \<lparr>status_code = 200, headers = [], error_text = [], json_body = Inr (JObj [])\<rparr>)
     = Inl (KeyError ''current'')
   \<and> fetch_prices (\<lambda>data. Inl (ValueError ''If using all scalar values, you must pass an index''))
       (\<lambda>url. Returned \<lparr>status_code = 200, headers = [], error_text = [],
                         json_body = Inr (JObj [(''bitcoin'', JNum 68000)])\<rparr>)
       API_URL
     = Inl (ValueError ''If using all scalar values, you must pass an index'')"
  by (simp add: get_weather_def get_weather_try_def fetch_prices_def fetch_prices_try_def
      raise_for_status_def and_then_def except_RequestException_def)



section \<open>Switching auto-refresh off\<close>









section \<open>A run whose fetch fails\<close>

lemma append_rows_SAMPLE_DF:
  "append_rows now SAMPLE_DF h =
     (None, h @ [\<lparr>ts = now, coin = ''bitcoin'', price = Num 68000\<rparr>,
                 \<lparr>ts = now, coin = ''ethereum'', price = Num 3500\<rparr>])"
  by (simp add: SAMPLE_DF_def row_price_def)

lemma run_home_Error:
  assumes "\<not> button i" and "err \<noteq> []"
    and "fetch_prices_cached (to_frame f) (cache_clock i) (net i) API_URL (prices_cache s)
            = (Inr (Error err), c)"
  shows "run_home f i s =
     (let H = prune_history (utcnow_prune i)
                (price_history s @ [\<lparr>ts = utcnow_sample i, coin = ''bitcoin'', price = Num 68000\<rparr>,
                                    \<lparr>ts = utcnow_sample i, coin = ''ethereum'', price = Num 3500\<rparr>])
      in (if auto_refresh i then Rerun_auto (refresh_sec i) else Finished,
          Some \<lparr>h_warning = Some (err @ sample_note), h_table = SAMPLE_DF,
                h_metrics = map (\<lambda>coin. (coin, compute (round64 f)
                                                   (series_view (sort_values f) coin H))) COINS,
                h_chart = H\<rparr>,
          \<lparr>price_history = H, prices_cache = (if auto_refresh i then cache_clear c else c)\<rparr>))"
  using assms by (simp add: run_home_def show_prices_def append_rows_SAMPLE_DF Let_def)

lemma run_weather_Error:
  assumes "\<not> button i" and "err \<noteq> []"
    and "get_weather_cached cv (cache_clock i) (net i) (weather_cache w) = (Inr (Error err), c)"
  shows "run_weather cv i w =
     (let H = prune_weather (utcnow_prune i)
                (weather_history w @ [\<lparr>ts = utcnow_sample i, temperature = None, wind = None\<rparr>])
      in (if auto_refresh i then Rerun_auto (refresh_sec i) else Finished,
          Some \<lparr>w_warning = Some err, w_table = fallback_row (utcnow_sample i),
                w_metrics = weather_metrics (round64 cv) H,
                w_chart = filter (\<lambda>r. temperature r \<noteq> None) H\<rparr>,
          \<lparr>weather_history = H, weather_cache = (if auto_refresh i then cache_clear c else c)\<rparr>))"
  using assms
  by (simp add: run_weather_def show_weather_def Let_def reading_of_def fallback_row_def)

text \<open>
  C6, as the code has it. When the cached call of a run gives an error message, the page
  shows a warning with that message and, as its snapshot, a fallback: the fixed sample
  rows on the price page, a row stamped with the clock and holding no values on the
  weather page. The fallback is appended to the history like any sample, the history is
  pruned, and metrics and chart are drawn from what the prune has kept, so earlier
  samples stay on view only while the prune keeps them. The run does not raise, and it
  ends as every run does: after the sleep of \<open>refresh_sec\<close> seconds when auto-refresh
  is on, at the bottom of the script otherwise.
\<close>

theorem error_run_shows_fallback:
  assumes "\<not> button i" and "err \<noteq> []"
  shows "(fetch_prices_cached (to_frame f) (cache_clock i) (net i) API_URL (prices_cache s)
            = (Inr (Error err), c)
      \<longrightarrow> run_home f i s =
     (let H = prune_history (utcnow_prune i)
                (price_history s @ [\<lparr>ts = utcnow_sample i, coin = ''bitcoin'', price = Num 68000\<rparr>,
                                    \<lparr>ts = utcnow_sample i, coin = ''ethereum'', price = Num 3500\<rparr>])
      in (if auto_refresh i then Rerun_auto (refresh_sec i) else Finished,
          Some \<lparr>h_warning = Some (err @ sample_note), h_table = SAMPLE_DF,
                h_metrics = map (\<lambda>coin. (coin, compute (round64 f)
                                                   (series_view (sort_values f) coin H))) COINS,
                h_chart = H\<rparr>,
          \<lparr>price_history = H, prices_cache = (if auto_refresh i then cache_clear c else c)\<rparr>)))
   \<and> (get_weather_cached cv (cache_clock i) (net i) (weather_cache w) = (Inr (Error err), wc)
      \<longrightarrow> run_weather cv i w =
     (let H = prune_weather (utcnow_prune i)
                (weather_history w @ [\<lparr>ts = utcnow_sample i, temperature = None, wind = None\<rparr>])
      in (if auto_refresh i then Rerun_auto (refresh_sec i) else Finished,
          Some \<lparr>w_warning = Some err, w_table = fallback_row (utcnow_sample i),
                w_metrics = weather_metrics (round64 cv) H,
                w_chart = filter (\<lambda>r. temperature r \<noteq> None) H\<rparr>,
          \<lparr>weather_history = H, weather_cache = (if auto_refresh i then cache_clear wc else wc)\<rparr>)))"
  using run_home_Error [OF assms] run_weather_Error [OF assms] by blast

text \<open>
  A run that fetched the prices 70000 and 3600, then a run 31 minutes later with the
  network down: the table shows the sample rows, and history and chart hold the two
  sample prices only. Nothing of the good snapshot is left to render.
\<close>

theorem error_run_keeps_good_snapshot_counterexample:
  "(let s1 = snd (snd (run_home example_lib (idle\<lparr>net := serving prices_payload\<rparr>)
                        new_home_session));
        r2 = run_home example_lib
               (idle\<lparr>cache_clock := 1860, utcnow_sample := minutes 31, utcnow_prune := minutes 31\<rparr>) s1
    in price_history s1 = [\<lparr>ts = 0, coin = ''bitcoin'', price = Num 70000\<rparr>,
                           \<lparr>ts = 0, coin = ''ethereum'', price = Num 3600\<rparr>]
       \<and> fst r2 = Finished
       \<and> map_option h_warning (fst (snd r2))
           = Some (Some (''Network/HTTP error: connection refused'' @ sample_note))
       \<and> map_option h_table (fst (snd r2)) = Some SAMPLE_DF
       \<and> SAMPLE_DF \<noteq> prices_frame
       \<and> map_option h_chart (fst (snd r2))
           = Some [\<lparr>ts = minutes 31, coin = ''bitcoin'', price = Num 68000\<rparr>,
                   \<lparr>ts = minutes 31, coin = ''ethereum'', price = Num 3500\<rparr>]
       \<and> price_history (snd (snd r2))
           = [\<lparr>ts = minutes 31, coin = ''bitcoin'', price = Num 68000\<rparr>,
              \<lparr>ts = minutes 31, coin = ''ethereum'', price = Num 3500\<rparr>])"
  by (simp add: Let_def run_home_def show_prices_def fetch_prices_cached_def cache_get_def
      cache_miss_def fetch_prices_def fetch_prices_try_def except_RequestException_def and_then_def
      raise_for_status_def serving_def offline_def idle_def new_home_session_def empty_cache_def
      frame_of_payload_def prices_frame_def prices_payload_def SAMPLE_DF_def row_price_def VS_def
      prune_history_def minutes_def WINDOW_MINUTES_def example_lib_def)


text \<open>The first run of a session on each page, with the network down.\<close>

theorem error_run_shows_fallback_witness:
  "\<not> button idle \<and> ''Network/HTTP error: connection refused'' \<noteq> []
   \<and> fetch_prices_cached frame_of_payload (cache_clock idle) (net idle) API_URL
        (prices_cache new_home_session)
      = (Inr (Error ''Network/HTTP error: connection refused''),
         \<lparr>entries = [API_URL \<mapsto> \<lparr>stored = Error ''Network/HTTP error: connection refused'',
                                      fetched_at = 0\<rparr>], fetcher_calls = 1\<rparr>)
   \<and> fst (run_home example_lib idle new_home_session) = Finished
   \<and> map_option h_warning (fst (snd (run_home example_lib idle new_home_session)))
      = Some (Some (''Network/HTTP error: connection refused'' @ sample_note))
   \<and> price_history (snd (snd (run_home example_lib idle new_home_session)))
      = [\<lparr>ts = 0, coin = ''bitcoin'', price = Num 68000\<rparr>,
         \<lparr>ts = 0, coin = ''ethereum'', price = Num 3500\<rparr>]
   \<and> get_weather_cached field_conversions (cache_clock idle) (net idle)
        (weather_cache new_weather_session)
      = (Inr (Error ''Network/HTTP error: connection refused''),
         \<lparr>entries = [() \<mapsto> \<lparr>stored = Error ''Network/HTTP error: connection refused'',
                                 fetched_at = 0\<rparr>], fetcher_calls = 1\<rparr>)
   \<and> fst (run_weather field_conversions idle new_weather_session) = Finished
   \<and> map_option w_warning (fst (snd (run_weather field_conversions idle new_weather_session)))
      = Some (Some ''Network/HTTP error: connection refused'')
   \<and> weather_history (snd (snd (run_weather field_conversions idle new_weather_session)))
      = [\<lparr>ts = 0, temperature = None, wind = None\<rparr>]"
proof -
  have nb: "\<not> button idle" by (simp add: idle_def)
  have ne: "''Network/HTTP error: connection refused'' \<noteq> []" by simp
  have p: "fetch_prices_cached frame_of_payload (cache_clock idle) (net idle) API_URL
        (prices_cache new_home_session)
      = (Inr (Error ''Network/HTTP error: connection refused''),
         \<lparr>entries = [API_URL \<mapsto> \<lparr>stored = Error ''Network/HTTP error: connection refused'',
                                      fetched_at = 0\<rparr>], fetcher_calls = 1\<rparr>)"
    by (simp add: fetch_prices_cached_def cache_get_def cache_miss_def fetch_prices_def
        fetch_prices_try_def except_RequestException_def offline_def idle_def
        new_home_session_def empty_cache_def)
  have w: "get_weather_cached field_conversions (cache_clock idle) (net idle)
        (weather_cache new_weather_session)
      = (Inr (Error ''Network/HTTP error: connection refused''),
         \<lparr>entries = [() \<mapsto> \<lparr>stored = Error ''Network/HTTP error: connection refused'',
                                 fetched_at = 0\<rparr>], fetcher_calls = 1\<rparr>)"
    by (simp add: get_weather_cached_def cache_get_def cache_miss_def get_weather_def
        get_weather_try_def except_RequestException_def offline_def idle_def
        new_weather_session_def empty_cache_def)
  have p': "fetch_prices_cached (to_frame example_lib) (cache_clock idle) (net idle) API_URL
        (prices_cache new_home_session)
      = (Inr (Error ''Network/HTTP error: connection refused''),
         \<lparr>entries = [API_URL \<mapsto> \<lparr>stored = Error ''Network/HTTP error: connection refused'',
                                      fetched_at = 0\<rparr>], fetcher_calls = 1\<rparr>)"
    using p by (simp add: example_lib_def)
  note t = error_run_shows_fallback [OF nb ne, where f = example_lib
      and s = new_home_session and cv = field_conversions and w = new_weather_session]
  note rh = t [THEN conjunct1, rule_format, OF p']
  note rw = t [THEN conjunct2, rule_format, OF w]
  have h1: "fst (run_home example_lib idle new_home_session) = Finished"
    "map_option h_warning (fst (snd (run_home example_lib idle new_home_session)))
      = Some (Some (''Network/HTTP error: connection refused'' @ sample_note))"
    "price_history (snd (snd (run_home example_lib idle new_home_session)))
      = [\<lparr>ts = 0, coin = ''bitcoin'', price = Num 68000\<rparr>,
         \<lparr>ts = 0, coin = ''ethereum'', price = Num 3500\<rparr>]"
    unfolding rh
    by (simp_all add: Let_def idle_def new_home_session_def prune_history_def minutes_def
        WINDOW_MINUTES_def)
  have w1: "fst (run_weather field_conversions idle new_weather_session) = Finished"
    "map_option w_warning (fst (snd (run_weather field_conversions idle new_weather_session)))
      = Some (Some ''Network/HTTP error: connection refused'')"
    "weather_history (snd (snd (run_weather field_conversions idle new_weather_session)))
      = [\<lparr>ts = 0, temperature = None, wind = None\<rparr>]"
    unfolding rw
    by (simp_all add: Let_def idle_def new_weather_session_def prune_weather_def hours_def
        WINDOW_HOURS_def)
  from nb ne p w h1 w1 show ?thesis by (intro conjI)
qed


section \<open>The sample prices in the metrics\<close>

lemma sorts_by_ts_sort_key: "sorts_by_ts (sort_key ts)"
  by (simp add: sorts_by_ts_def)

lemma sorted_le_last:
  assumes "sorted (xs :: int list)" and "x \<in> set xs"
  shows "x \<le> last xs"
proof -
  from assms(2) have ne: "xs \<noteq> []" by auto
  then have "xs = butlast xs @ [last xs]" by simp
  then have "sorted (butlast xs @ [last xs])" and "x \<in> set (butlast xs @ [last xs])"
    using assms by simp_all
  then show ?thesis by (auto simp: sorted_append)
qed

lemma sorted_perm_last:
  assumes "sorted (map ts ys)" and "mset ys = mset (F @ [b])" and "\<forall>y\<in>set F. ts y < ts b"
  shows "ys \<noteq> [] \<and> last ys = b"
proof -
  from assms(2) have ne: "ys \<noteq> []" by auto
  from assms(2) have set: "set ys = set F \<union> {b}"
    by (metis mset_eq_setD set_append list.set(1,2) Un_insert_right sup_bot.right_neutral)
  have "last ys = b"
  proof (rule ccontr)
    assume "last ys \<noteq> b"
    with ne set have "last ys \<in> set F" using last_in_set [OF ne] by auto
    with assms(3) have lt: "ts (last ys) < ts b" by simp
    from set have "ts b \<in> set (map ts ys)" by simp
    with assms(1) have "ts b \<le> last (map ts ys)" by (rule sorted_le_last)
    with ne have "ts b \<le> ts (last ys)" by (simp add: last_map)
    with lt show False by simp
  qed
  with ne show ?thesis by simp
qed

lemma sorted_perm_strict:
  assumes "sorts_by_ts srt" and "sorted_wrt (<) (map ts xs)"
  shows "srt xs = xs"
proof -
  from assms(1) have s: "sorted (map ts (srt xs))" and m: "mset (srt xs) = mset xs"
    by (simp_all add: sorts_by_ts_def)
  from assms(2) have sx: "sorted (map ts xs)" and dx: "distinct (map ts xs)"
    by (simp_all add: strict_sorted_iff)
  from m have "mset (map ts (srt xs)) = mset (map ts xs)" by simp
  with s sx have eq: "map ts (srt xs) = map ts xs"
    by (metis properties_for_sort)
  from dx have "inj_on ts (set xs)" by (simp add: distinct_map)
  moreover from m have "set (srt xs) = set xs" by (rule mset_eq_setD)
  ultimately have "inj_on ts (set (srt xs) \<union> set xs)" by simp
  with eq show ?thesis by (rule map_inj_on)
qed

lemma compute_current: "ys \<noteq> [] \<Longrightarrow> fst (compute rnd ys) = Some (price (last ys))"
  by (simp add: compute_def last_conv_nth Let_def)


lemma compute_snoc:
  "compute rnd (ys @ [x]) =
     (Some (price x),
      case ys of [] \<Rightarrow> None | z # zs \<Rightarrow> Some (fsub rnd (price x) (price (last (z # zs)))))"
proof (cases ys rule: rev_cases)
  case Nil
  then show ?thesis by (simp add: compute_def)
next
  case (snoc zs z)
  then show ?thesis using compute_two [of rnd zs z x] by (cases zs) simp_all
qed

lemma prune_history_append_new:
  assumes "\<forall>x\<in>set new. \<not> ts x < now - minutes WINDOW_MINUTES"
  shows "prune_history now (h @ new) = prune_history now h @ new"
proof -
  have "dropWhile (\<lambda>s. ts s < now - minutes WINDOW_MINUTES) new = new"
    using assms by (cases new) simp_all
  then show ?thesis
    by (simp add: prune_history_def popleft_while_dropWhile dropWhile_append Let_def
        dropWhile_eq_Nil_conv [THEN iffD2])
qed

lemma set_prune_history: "set (prune_history now h) \<subseteq> set h"
  by (auto simp: prune_history_def popleft_while_dropWhile dest: set_dropWhileD)

lemma strict_after_dropWhile:
  assumes "sorted_wrt (<) (map ts (filter P xs))"
  shows "sorted_wrt (<) (map ts (filter P (dropWhile Q xs)))"
proof -
  have "xs = takeWhile Q xs @ dropWhile Q xs" by simp
  then have "filter P xs = filter P (takeWhile Q xs) @ filter P (dropWhile Q xs)"
    by (metis filter_append)
  with assms show ?thesis by (simp add: sorted_wrt_append)
qed

lemma strict_after_prune_history:
  "sorted_wrt (<) (map ts (filter P h)) \<Longrightarrow>
     sorted_wrt (<) (map ts (filter P (prune_history now h)))"
  unfolding prune_history_def popleft_while_dropWhile Let_def by (rule strict_after_dropWhile)

lemma metric_of_new_sample:
  assumes srt: "sorts_by_ts srt" and old: "\<forall>y\<in>set F. ts y < ts b"
  shows "srt (F @ [b]) \<noteq> [] \<and> fst (compute rnd (srt (F @ [b]))) = Some (price b)"
    and "sorted_wrt (<) (map ts F) \<Longrightarrow>
         compute rnd (srt (F @ [b])) =
           (Some (price b),
            case F of [] \<Rightarrow> None | z # zs \<Rightarrow> Some (fsub rnd (price b) (price (last (z # zs)))))"
proof -
  from srt have "sorted (map ts (srt (F @ [b])))" "mset (srt (F @ [b])) = mset (F @ [b])"
    by (simp_all add: sorts_by_ts_def)
  from sorted_perm_last [OF this old]
  show "srt (F @ [b]) \<noteq> [] \<and> fst (compute rnd (srt (F @ [b]))) = Some (price b)"
    by (simp add: compute_current)
next
  assume "sorted_wrt (<) (map ts F)"
  with old have "sorted_wrt (<) (map ts (F @ [b]))"
    by (simp add: sorted_wrt_append)
  with srt have "srt (F @ [b]) = F @ [b]" by (rule sorted_perm_strict)
  then show "compute rnd (srt (F @ [b])) =
           (Some (price b),
            case F of [] \<Rightarrow> None | z # zs \<Rightarrow> Some (fsub rnd (price b) (price (last (z # zs)))))"
    by (simp add: compute_snoc)
qed

text \<open>
  C9, as the code has it. On the price page a run whose cached call gives an error
  message appends the two fixed prices, bitcoin 68000 and ethereum 3500, stamped with
  the clock, and prunes. When the clock reading is later than every stored timestamp
  and the reading inside the prune is less than the window after it, the two samples
  end the history and the current value of each coin is its fixed price. When moreover
  the stored samples of each coin are in strictly increasing timestamp order, the delta
  of the coin is the float difference of its fixed price and the last price kept for
  it, and there is no delta when none is kept.
\<close>

theorem error_run_appends_sample_prices:
  assumes "\<not> button i" and "err \<noteq> []"
    and "fetch_prices_cached (to_frame f) (cache_clock i) (net i) API_URL (prices_cache s)
            = (Inr (Error err), c)"
  shows "price_history (snd (snd (run_home f i s)))
      = prune_history (utcnow_prune i)
          (price_history s @ [\<lparr>ts = utcnow_sample i, coin = ''bitcoin'', price = Num 68000\<rparr>,
                              \<lparr>ts = utcnow_sample i, coin = ''ethereum'', price = Num 3500\<rparr>])
   \<and> (sorts_by_ts (sort_values f)
      \<longrightarrow> (\<forall>x\<in>set (price_history s). ts x < utcnow_sample i)
      \<longrightarrow> utcnow_prune i - minutes WINDOW_MINUTES \<le> utcnow_sample i
      \<longrightarrow> price_history (snd (snd (run_home f i s)))
          = prune_history (utcnow_prune i) (price_history s)
              @ [\<lparr>ts = utcnow_sample i, coin = ''bitcoin'', price = Num 68000\<rparr>,
                 \<lparr>ts = utcnow_sample i, coin = ''ethereum'', price = Num 3500\<rparr>]
        \<and> (\<exists>db de. map_option h_metrics (fst (snd (run_home f i s)))
              = Some [(''bitcoin'', Some (Num 68000), db), (''ethereum'', Some (Num 3500), de)]))
   \<and> (sorts_by_ts (sort_values f)
      \<longrightarrow> (\<forall>x\<in>set (price_history s). ts x < utcnow_sample i)
      \<longrightarrow> utcnow_prune i - minutes WINDOW_MINUTES \<le> utcnow_sample i
      \<longrightarrow> sorted_wrt (<) (map ts (filter (\<lambda>x. coin x = ''bitcoin'') (price_history s)))
      \<longrightarrow> sorted_wrt (<) (map ts (filter (\<lambda>x. coin x = ''ethereum'') (price_history s)))
      \<longrightarrow> map_option h_metrics (fst (snd (run_home f i s)))
          = Some [(''bitcoin'', Some (Num 68000),
                   case filter (\<lambda>x. coin x = ''bitcoin'')
                          (prune_history (utcnow_prune i) (price_history s)) of
                     [] \<Rightarrow> None
                   | z # zs \<Rightarrow> Some (fsub (round64 f) (Num 68000) (price (last (z # zs))))),
                  (''ethereum'', Some (Num 3500),
                   case filter (\<lambda>x. coin x = ''ethereum'')
                          (prune_history (utcnow_prune i) (price_history s)) of
                     [] \<Rightarrow> None
                   | z # zs \<Rightarrow> Some (fsub (round64 f) (Num 3500) (price (last (z # zs)))))])"
proof -
  let ?now = "utcnow_sample i"
  let ?B = "\<lparr>ts = ?now, coin = ''bitcoin'', price = Num 68000\<rparr>"
  let ?E = "\<lparr>ts = ?now, coin = ''ethereum'', price = Num 3500\<rparr>"
  let ?P = "prune_history (utcnow_prune i) (price_history s)"
  let ?H = "prune_history (utcnow_prune i) (price_history s @ [?B, ?E])"
  let ?Fb = "filter (\<lambda>x. coin x = ''bitcoin'') ?P"
  let ?Fe = "filter (\<lambda>x. coin x = ''ethereum'') ?P"
  let ?rnd = "round64 f"
  let ?srt = "sort_values f"
  note run = run_home_Error [OF assms]
  have hist: "price_history (snd (snd (run_home f i s))) = ?H"
    unfolding run by (simp add: Let_def)
  have met: "map_option h_metrics (fst (snd (run_home f i s)))
      = Some [(''bitcoin'', compute ?rnd (series_view ?srt ''bitcoin'' ?H)),
              (''ethereum'', compute ?rnd (series_view ?srt ''ethereum'' ?H))]"
    unfolding run by (simp add: Let_def COINS_def)
  have views: "?H = ?P @ [?B, ?E]"
      "series_view ?srt ''bitcoin'' ?H = ?srt (?Fb @ [?B])"
      "series_view ?srt ''ethereum'' ?H = ?srt (?Fe @ [?E])"
      "\<forall>y\<in>set ?Fb. ts y < ts ?B" "\<forall>y\<in>set ?Fe. ts y < ts ?E"
    if old: "\<forall>x\<in>set (price_history s). ts x < ?now"
      and clock: "utcnow_prune i - minutes WINDOW_MINUTES \<le> ?now"
  proof -
    have "\<forall>x\<in>set [?B, ?E]. \<not> ts x < utcnow_prune i - minutes WINDOW_MINUTES"
      using clock by simp
    then show H: "?H = ?P @ [?B, ?E]" by (rule prune_history_append_new)
    show "series_view ?srt ''bitcoin'' ?H = ?srt (?Fb @ [?B])"
      "series_view ?srt ''ethereum'' ?H = ?srt (?Fe @ [?E])"
      unfolding H by (simp_all add: series_view_def)
    have P: "\<forall>y\<in>set ?P. ts y < ?now"
      using old set_prune_history [of "utcnow_prune i" "price_history s"] by blast
    then show "\<forall>y\<in>set ?Fb. ts y < ts ?B" "\<forall>y\<in>set ?Fe. ts y < ts ?E" by simp_all
  qed
  show ?thesis
  proof (intro conjI impI)
    show "price_history (snd (snd (run_home f i s))) = ?H" by (rule hist)
  next
    assume "\<forall>x\<in>set (price_history s). ts x < ?now"
      and "utcnow_prune i - minutes WINDOW_MINUTES \<le> ?now"
    then show "price_history (snd (snd (run_home f i s))) = ?P @ [?B, ?E]"
      using hist views(1) by simp
  next
    assume srt: "sorts_by_ts ?srt"
      and a: "\<forall>x\<in>set (price_history s). ts x < ?now"
        "utcnow_prune i - minutes WINDOW_MINUTES \<le> ?now"
    note v = views [OF a]
    from metric_of_new_sample(1) [OF srt v(4), of ?rnd]
    have b: "fst (compute ?rnd (series_view ?srt ''bitcoin'' ?H)) = Some (Num 68000)"
      unfolding v(2) by simp
    from metric_of_new_sample(1) [OF srt v(5), of ?rnd]
    have e: "fst (compute ?rnd (series_view ?srt ''ethereum'' ?H)) = Some (Num 3500)"
      unfolding v(3) by simp
    have "map_option h_metrics (fst (snd (run_home f i s)))
        = Some [(''bitcoin'', Some (Num 68000), snd (compute ?rnd (series_view ?srt ''bitcoin'' ?H))),
                (''ethereum'', Some (Num 3500), snd (compute ?rnd (series_view ?srt ''ethereum'' ?H)))]"
      unfolding met using b e by (simp add: prod_eq_iff)
    then show "\<exists>db de. map_option h_metrics (fst (snd (run_home f i s)))
              = Some [(''bitcoin'', Some (Num 68000), db), (''ethereum'', Some (Num 3500), de)]"
      by blast
  next
    assume srt: "sorts_by_ts ?srt"
      and a: "\<forall>x\<in>set (price_history s). ts x < ?now"
        "utcnow_prune i - minutes WINDOW_MINUTES \<le> ?now"
      and sb: "sorted_wrt (<) (map ts (filter (\<lambda>x. coin x = ''bitcoin'') (price_history s)))"
      and se: "sorted_wrt (<) (map ts (filter (\<lambda>x. coin x = ''ethereum'') (price_history s)))"
    note v = views [OF a]
    from sb have sb': "sorted_wrt (<) (map ts ?Fb)" by (rule strict_after_prune_history)
    from se have se': "sorted_wrt (<) (map ts ?Fe)" by (rule strict_after_prune_history)
    note mb = metric_of_new_sample(2) [OF srt v(4) sb', of ?rnd]
    note me = metric_of_new_sample(2) [OF srt v(5) se', of ?rnd]
    show "map_option h_metrics (fst (snd (run_home f i s)))
          = Some [(''bitcoin'', Some (Num 68000),
                   case ?Fb of
                     [] \<Rightarrow> None
                   | z # zs \<Rightarrow> Some (fsub ?rnd (Num 68000) (price (last (z # zs))))),
                  (''ethereum'', Some (Num 3500),
                   case ?Fe of
                     [] \<Rightarrow> None
                   | z # zs \<Rightarrow> Some (fsub ?rnd (Num 3500) (price (last (z # zs)))))]"
      unfolding met v(2,3) mb me by (simp cong: list.case_cong)
  qed
qed


text \<open>
  Prices stored at minute 10 and an error run whose clock reads minute 5: the view is
  ordered by timestamp, so the current values are the stored prices 70000 and 3600, not
  the fixed ones, and the deltas are +2000 and +100.
\<close>

theorem sample_prices_in_metrics_counterexample:
  "map_option h_metrics (fst (snd (run_home example_lib
        (idle\<lparr>cache_clock := 400, utcnow_sample := minutes 5, utcnow_prune := minutes 5\<rparr>)
        \<lparr>price_history = [\<lparr>ts = minutes 10, coin = ''bitcoin'', price = Num 70000\<rparr>,
                           \<lparr>ts = minutes 10, coin = ''ethereum'', price = Num 3600\<rparr>],
         prices_cache = \<lparr>entries = [API_URL \<mapsto> \<lparr>stored = Data prices_frame, fetched_at = 0\<rparr>],
                         fetcher_calls = 1\<rparr>\<rparr>)))
     = Some [(''bitcoin'', Some (Num 70000), Some (Num 2000)),
             (''ethereum'', Some (Num 3600), Some (Num 100))]"
  by (simp add: run_home_def show_prices_def fetch_prices_cached_def cache_get_def
      cache_miss_def fetch_prices_def fetch_prices_try_def except_RequestException_def
      offline_def idle_def example_lib_def unrounded_def SAMPLE_DF_def row_price_def VS_def
      prune_history_def minutes_def WINDOW_MINUTES_def Let_def COINS_def series_view_def
      compute_def)

text \<open>
  Prices 70000 and 3600 stored at minute 0, then an error five minutes later: the
  metrics show 68000 with delta -2000 and 3500 with delta -100.
\<close>

theorem error_run_appends_sample_prices_witness:
  "\<not> button (idle\<lparr>cache_clock := 400, utcnow_sample := minutes 5, utcnow_prune := minutes 5\<rparr>)
   \<and> ''Network/HTTP error: connection refused'' \<noteq> []
   \<and> fetch_prices_cached (to_frame example_lib) 400 offline API_URL
        \<lparr>entries = [API_URL \<mapsto> \<lparr>stored = Data prices_frame, fetched_at = 0\<rparr>], fetcher_calls = 1\<rparr>
      = (Inr (Error ''Network/HTTP error: connection refused''),
         \<lparr>entries = [API_URL \<mapsto> \<lparr>stored = Error ''Network/HTTP error: connection refused'',
                                      fetched_at = 400\<rparr>], fetcher_calls = 2\<rparr>)
   \<and> sorts_by_ts (sort_values example_lib)
   \<and> list_all (\<lambda>x. ts x < minutes 5)
        [\<lparr>ts = 0, coin = ''bitcoin'', price = Num 70000\<rparr>,
         \<lparr>ts = 0, coin = ''ethereum'', price = Num 3600\<rparr>]
   \<and> minutes 5 - minutes WINDOW_MINUTES \<le> minutes 5
   \<and> sorted_wrt (<) (map ts (filter (\<lambda>x. coin x = ''bitcoin'')
        [\<lparr>ts = 0, coin = ''bitcoin'', price = Num 70000\<rparr>,
         \<lparr>ts = 0, coin = ''ethereum'', price = Num 3600\<rparr>]))
   \<and> sorted_wrt (<) (map ts (filter (\<lambda>x. coin x = ''ethereum'')
        [\<lparr>ts = 0, coin = ''bitcoin'', price = Num 70000\<rparr>,
         \<lparr>ts = 0, coin = ''ethereum'', price = Num 3600\<rparr>]))
   \<and> price_history (snd (snd (run_home example_lib
        (idle\<lparr>cache_clock := 400, utcnow_sample := minutes 5, utcnow_prune := minutes 5\<rparr>)
        \<lparr>price_history = [\<lparr>ts = 0, coin = ''bitcoin'', price = Num 70000\<rparr>,
                           \<lparr>ts = 0, coin = ''ethereum'', price = Num 3600\<rparr>],
         prices_cache = \<lparr>entries = [API_URL \<mapsto> \<lparr>stored = Data prices_frame, fetched_at = 0\<rparr>],
                         fetcher_calls = 1\<rparr>\<rparr>)))
      = [\<lparr>ts = 0, coin = ''bitcoin'', price = Num 70000\<rparr>,
         \<lparr>ts = 0, coin = ''ethereum'', price = Num 3600\<rparr>,
         \<lparr>ts = minutes 5, coin = ''bitcoin'', price = Num 68000\<rparr>,
         \<lparr>ts = minutes 5, coin = ''ethereum'', price = Num 3500\<rparr>]
   \<and> map_option h_metrics (fst (snd (run_home example_lib
        (idle\<lparr>cache_clock := 400, utcnow_sample := minutes 5, utcnow_prune := minutes 5\<rparr>)
        \<lparr>price_history = [\<lparr>ts = 0, coin = ''bitcoin'', price = Num 70000\<rparr>,
                           \<lparr>ts = 0, coin = ''ethereum'', price = Num 3600\<rparr>],
         prices_cache = \<lparr>entries = [API_URL \<mapsto> \<lparr>stored = Data prices_frame, fetched_at = 0\<rparr>],
                         fetcher_calls = 1\<rparr>\<rparr>)))
      = Some [(''bitcoin'', Some (Num 68000), Some (Num (- 2000))),
              (''ethereum'', Some (Num 3500), Some (Num (- 100)))]"
proof -
  let ?i = "idle\<lparr>cache_clock := 400, utcnow_sample := minutes 5, utcnow_prune := minutes 5\<rparr>"
  let ?h = "[\<lparr>ts = 0, coin = ''bitcoin'', price = Num 70000\<rparr>,
             \<lparr>ts = 0, coin = ''ethereum'', price = Num 3600\<rparr>]"
  let ?s = "\<lparr>price_history = ?h,
         prices_cache = \<lparr>entries = [API_URL \<mapsto> \<lparr>stored = Data prices_frame, fetched_at = 0\<rparr>],
                         fetcher_calls = 1\<rparr>\<rparr>"
  have nb: "\<not> button ?i" by (simp add: idle_def)
  have ne: "''Network/HTTP error: connection refused'' \<noteq> []" by simp
  have p: "fetch_prices_cached (to_frame example_lib) 400 offline API_URL
        \<lparr>entries = [API_URL \<mapsto> \<lparr>stored = Data prices_frame, fetched_at = 0\<rparr>], fetcher_calls = 1\<rparr>
      = (Inr (Error ''Network/HTTP error: connection refused''),
         \<lparr>entries = [API_URL \<mapsto> \<lparr>stored = Error ''Network/HTTP error: connection refused'',
                                      fetched_at = 400\<rparr>], fetcher_calls = 2\<rparr>)"
    by (simp add: fetch_prices_cached_def cache_get_def cache_miss_def fetch_prices_def
        fetch_prices_try_def except_RequestException_def offline_def)
  have p': "fetch_prices_cached (to_frame example_lib) (cache_clock ?i) (net ?i) API_URL
        (prices_cache ?s)
      = (Inr (Error ''Network/HTTP error: connection refused''),
         \<lparr>entries = [API_URL \<mapsto> \<lparr>stored = Error ''Network/HTTP error: connection refused'',
                                      fetched_at = 400\<rparr>], fetcher_calls = 2\<rparr>)"
    using p by (simp add: idle_def)
  have srt: "sorts_by_ts (sort_values example_lib)"
    by (simp add: example_lib_def sorts_by_ts_sort_key)
  have old: "\<forall>x\<in>set (price_history ?s). ts x < utcnow_sample ?i"
    by (simp add: idle_def minutes_def)
  have clock: "utcnow_prune ?i - minutes WINDOW_MINUTES \<le> utcnow_sample ?i"
    by (simp add: minutes_def WINDOW_MINUTES_def)
  have sb: "sorted_wrt (<) (map ts (filter (\<lambda>x. coin x = ''bitcoin'') (price_history ?s)))"
    and se: "sorted_wrt (<) (map ts (filter (\<lambda>x. coin x = ''ethereum'') (price_history ?s)))"
    by simp_all
  note t = error_run_appends_sample_prices [OF nb ne p']
  note t2 = t [THEN conjunct2, THEN conjunct1, THEN mp, THEN mp, THEN mp, OF srt old clock,
      THEN conjunct1]
  note t3 = t [THEN conjunct2, THEN conjunct2, THEN mp, THEN mp, THEN mp, THEN mp, THEN mp,
      OF srt old clock sb se]
  have h: "price_history (snd (snd (run_home example_lib ?i ?s)))
      = [\<lparr>ts = 0, coin = ''bitcoin'', price = Num 70000\<rparr>,
         \<lparr>ts = 0, coin = ''ethereum'', price = Num 3600\<rparr>,
         \<lparr>ts = minutes 5, coin = ''bitcoin'', price = Num 68000\<rparr>,
         \<lparr>ts = minutes 5, coin = ''ethereum'', price = Num 3500\<rparr>]"
    using t2
    by (simp add: prune_history_def minutes_def WINDOW_MINUTES_def idle_def)
  have m: "map_option h_metrics (fst (snd (run_home example_lib ?i ?s)))
      = Some [(''bitcoin'', Some (Num 68000), Some (Num (- 2000))),
              (''ethereum'', Some (Num 3500), Some (Num (- 100)))]"
    using t3
    by (simp add: prune_history_def minutes_def WINDOW_MINUTES_def idle_def example_lib_def
        unrounded_def)
  have l: "list_all (\<lambda>x. ts x < minutes 5) ?h" by (simp add: minutes_def)
  have c: "minutes 5 - minutes WINDOW_MINUTES \<le> minutes 5"
    by (simp add: minutes_def WINDOW_MINUTES_def)
  have sb0: "sorted_wrt (<) (map ts (filter (\<lambda>x. coin x = ''bitcoin'') ?h))"
    and se0: "sorted_wrt (<) (map ts (filter (\<lambda>x. coin x = ''ethereum'') ?h))"
    by simp_all
  from nb ne p srt l c sb0 se0 h m show ?thesis by (intro conjI)
qed

section \<open>Appends on every run\<close>

lemma append_rows_priced:
  "\<forall>r\<in>set df. map_of (snd r) VS \<noteq> None \<Longrightarrow>
     append_rows now df h =
       (None, h @ map (\<lambda>r. \<lparr>ts = now, coin = fst r, price = the (map_of (snd r) VS)\<rparr>) df)"
  by (induction df arbitrary: h) (auto simp: row_price_def)

lemma run_home_Data:
  assumes "\<not> button i"
    and "fetch_prices_cached (to_frame f) (cache_clock i) (net i) API_URL (prices_cache s)
            = (Inr (Data df), c)"
    and "\<forall>r\<in>set df. map_of (snd r) VS \<noteq> None"
  shows "price_history (snd (snd (run_home f i s))) =
     prune_history (utcnow_prune i)
       (price_history s
          @ map (\<lambda>r. \<lparr>ts = utcnow_sample i, coin = fst r, price = the (map_of (snd r) VS)\<rparr>) df)"
  using assms by (simp add: run_home_def show_prices_def append_rows_priced Let_def)

lemma run_weather_Data:
  assumes "\<not> button i"
    and "get_weather_cached cv (cache_clock i) (net i) (weather_cache w) = (Inr (Data wdf), c)"
  shows "run_weather cv i w =
     (let H = prune_weather (utcnow_prune i) (weather_history w @ [reading_of wdf])
      in (if auto_refresh i then Rerun_auto (refresh_sec i) else Finished,
          Some \<lparr>w_warning = None, w_table = wdf, w_metrics = weather_metrics (round64 cv) H,
                w_chart = filter (\<lambda>r. temperature r \<noteq> None) H\<rparr>,
          \<lparr>weather_history = H, weather_cache = (if auto_refresh i then cache_clear c else c)\<rparr>))"
  using assms by (simp add: run_weather_def show_weather_def Let_def)










section \<open>The timestamps of the samples\<close>

lemma append_rows_shape:
  "\<exists>n k. snd (append_rows now df h) = h @ n \<and> (\<forall>x\<in>set n. ts x = now)
         \<and> map coin n = take k (map fst df)"
proof (induction df arbitrary: h)
  case Nil
  then show ?case by simp
next
  case (Cons r rs)
  show ?case
  proof (cases "row_price r")
    case (Inl e)
    then have "snd (append_rows now (r # rs) h) = h @ []
        \<and> (\<forall>x\<in>set ([] :: sample list). ts x = now)
        \<and> map coin ([] :: sample list) = take 0 (map fst (r # rs))"
      by simp
    then show ?thesis by blast
  next
    case (Inr p)
    let ?x = "\<lparr>ts = now, coin = fst r, price = p\<rparr>"
    from Cons.IH [of "h @ [?x]"] obtain n k
      where n: "snd (append_rows now rs (h @ [?x])) = (h @ [?x]) @ n"
        "\<forall>x\<in>set n. ts x = now" "map coin n = take k (map fst rs)"
      by blast
    with Inr have "snd (append_rows now (r # rs) h) = h @ (?x # n)
        \<and> (\<forall>x\<in>set (?x # n). ts x = now)
        \<and> map coin (?x # n) = take (Suc k) (map fst (r # rs))"
      by simp
    then show ?thesis by blast
  qed
qed

lemma filter_distinct_key_short:
  "distinct (map f xs) \<Longrightarrow> length (filter (\<lambda>x. f x = c) xs) \<le> 1"
proof (induction xs)
  case Nil
  then show ?case by simp
next
  case (Cons x xs)
  show ?case
  proof (cases "f x = c")
    case True
    from Cons.prems have "f x \<notin> f ` set xs" by simp
    with True have "\<forall>y\<in>set xs. f y \<noteq> c" by blast
    then have "filter (\<lambda>x. f x = c) xs = []"
      by (simp add: filter_empty_conv)
    with True show ?thesis by simp
  next
    case False
    with Cons show ?thesis by simp
  qed
qed

lemma sorted_wrt_short: "length xs \<le> 1 \<Longrightarrow> sorted_wrt R xs"
proof (cases xs)
  case Nil
  then show ?thesis by simp
next
  case (Cons a list)
  assume "length xs \<le> 1"
  with Cons have "list = []" by simp
  with Cons show ?thesis by simp
qed

lemma strict_after_append:
  assumes "sorted_wrt (<) (map ts (filter (\<lambda>x. coin x = c) h))"
    and "\<forall>x\<in>set h. ts x < now" and "\<forall>x\<in>set n. ts x = now" and "distinct (map coin n)"
  shows "sorted_wrt (<) (map ts (filter (\<lambda>x. coin x = c) (h @ n)))"
proof -
  have "length (map ts (filter (\<lambda>x. coin x = c) n)) \<le> 1"
    using filter_distinct_key_short [OF assms(4), of c] by simp
  then have "sorted_wrt (<) (map ts (filter (\<lambda>x. coin x = c) n))"
    by (rule sorted_wrt_short)
  with assms(1-3) show ?thesis
    by (auto simp: sorted_wrt_append)
qed

lemma run_home_history_shape:
  assumes "\<forall>df. fst (fetch_prices_cached (to_frame f) (cache_clock i) (net i) API_URL (prices_cache s))
                  = Inr (Data df) \<longrightarrow> distinct (map fst df)"
  shows "\<exists>n. (price_history (snd (snd (run_home f i s))) = price_history s @ n
             \<or> price_history (snd (snd (run_home f i s)))
                 = prune_history (utcnow_prune i) (price_history s @ n))
           \<and> (\<forall>x\<in>set n. ts x = utcnow_sample i) \<and> distinct (map coin n)"
proof -
  have none: ?thesis if "price_history (snd (snd (run_home f i s))) = price_history s"
  proof -
    from that have "(price_history (snd (snd (run_home f i s))) = price_history s @ []
             \<or> price_history (snd (snd (run_home f i s)))
                 = prune_history (utcnow_prune i) (price_history s @ []))
           \<and> (\<forall>x\<in>set ([] :: sample list). ts x = utcnow_sample i)
           \<and> distinct (map coin ([] :: sample list))"
      by simp
    then show ?thesis by blast
  qed
  have shown: ?thesis
    if run: "run_home f i s = show_prices f i c warn df (price_history s)"
      and d: "distinct (map fst df)" for c warn df
  proof -
    from append_rows_shape [of "utcnow_sample i" df "price_history s"] obtain n k
      where n: "snd (append_rows (utcnow_sample i) df (price_history s)) = price_history s @ n"
        "\<forall>x\<in>set n. ts x = utcnow_sample i" "map coin n = take k (map fst df)"
      by blast
    from d n(3) have dn: "distinct (map coin n)" by simp
    have "price_history (snd (snd (run_home f i s))) = price_history s @ n
        \<or> price_history (snd (snd (run_home f i s)))
             = prune_history (utcnow_prune i) (price_history s @ n)"
      using n(1) unfolding run show_prices_def
      by (cases "append_rows (utcnow_sample i) df (price_history s)")
        (auto simp: Let_def split: option.splits)
    with n(2) dn show ?thesis by blast
  qed
  show ?thesis
  proof (cases "button i")
    case True
    then show ?thesis by (intro none) (simp add: run_home_def)
  next
    case False
    obtain r c where rc: "fetch_prices_cached (to_frame f) (cache_clock i) (net i) API_URL (prices_cache s) = (r, c)"
      by (cases "fetch_prices_cached (to_frame f) (cache_clock i) (net i) API_URL (prices_cache s)")
    show ?thesis
    proof (cases r)
      case (Inl e)
      with False rc show ?thesis by (intro none) (simp add: run_home_def)
    next
      case (Inr got)
      show ?thesis
      proof (cases got)
        case (Data df)
        with assms rc Inr have "distinct (map fst df)" by simp
        moreover from False rc Inr Data
        have "run_home f i s = show_prices f i c None df (price_history s)"
          by (simp add: run_home_def)
        ultimately show ?thesis by (rule shown [rotated])
      next
        case (Error err)
        show ?thesis
        proof (cases "err = []")
          case True
          with False rc Inr Error show ?thesis by (intro none) (simp add: run_home_def)
        next
          case ne: False
          have "distinct (map fst SAMPLE_DF)" by (simp add: SAMPLE_DF_def)
          moreover from False rc Inr Error ne
          have "run_home f i s
              = show_prices f i c (Some (err @ sample_note)) SAMPLE_DF (price_history s)"
            by (simp add: run_home_def)
          ultimately show ?thesis by (rule shown [rotated])
        qed
      qed
    qed
  qed
qed

lemma run_home_keeps_strict:
  assumes "sorted_wrt (<) (map ts (filter (\<lambda>x. coin x = k) (price_history s)))"
    and "\<forall>x\<in>set (price_history s). ts x < utcnow_sample i"
    and "\<forall>df. fst (fetch_prices_cached (to_frame f) (cache_clock i) (net i) API_URL (prices_cache s))
                  = Inr (Data df) \<longrightarrow> distinct (map fst df)"
  shows "sorted_wrt (<) (map ts (filter (\<lambda>x. coin x = k) (price_history (snd (snd (run_home f i s))))))
         \<and> (\<forall>x\<in>set (price_history (snd (snd (run_home f i s)))). ts x \<le> utcnow_sample i)"
proof -
  from run_home_history_shape [OF assms(3)] obtain n
    where n: "price_history (snd (snd (run_home f i s))) = price_history s @ n
             \<or> price_history (snd (snd (run_home f i s)))
                 = prune_history (utcnow_prune i) (price_history s @ n)"
      "\<forall>x\<in>set n. ts x = utcnow_sample i" "distinct (map coin n)"
    by blast
  have full: "sorted_wrt (<) (map ts (filter (\<lambda>x. coin x = k) (price_history s @ n)))"
    using assms(1,2) n(2,3) by (rule strict_after_append)
  have le: "\<forall>x\<in>set (price_history s @ n). ts x \<le> utcnow_sample i"
    using assms(2) n(2) by auto
  from n(1) show ?thesis
  proof
    assume "price_history (snd (snd (run_home f i s))) = price_history s @ n"
    with full le show ?thesis by simp
  next
    assume p: "price_history (snd (snd (run_home f i s)))
                 = prune_history (utcnow_prune i) (price_history s @ n)"
    have "sorted_wrt (<) (map ts (filter (\<lambda>x. coin x = k)
            (prune_history (utcnow_prune i) (price_history s @ n))))"
      unfolding prune_history_def popleft_while_dropWhile Let_def
      using full by (rule strict_after_dropWhile)
    moreover have "\<forall>x\<in>set (prune_history (utcnow_prune i) (price_history s @ n)).
        ts x \<le> utcnow_sample i"
      using le set_prune_history [of "utcnow_prune i" "price_history s @ n"] by blast
    ultimately show ?thesis using p by simp
  qed
qed


text \<open>
  C7, as the code has it. On the price page every sample appended in a run carries the
  one clock reading taken before the loop, while the cutoff of the prune comes from a
  second reading inside \<open>prune_history\<close>. A series that is in strictly increasing
  timestamp order stays so through a run whose reading is later than every stored
  timestamp, when the frame has one row per coin; afterwards no stored timestamp is
  later than the reading. On the weather page the reading appended carries the time
  reported in the fetched or cached row, and the clock only on the error fallback.
\<close>

theorem sample_timestamps:
  "(sorted_wrt (<) (map ts (filter (\<lambda>x. coin x = k) (price_history s)))
      \<longrightarrow> (\<forall>x\<in>set (price_history s). ts x < utcnow_sample i)
      \<longrightarrow> (\<forall>df. fst (fetch_prices_cached (to_frame f) (cache_clock i) (net i) API_URL (prices_cache s))
                  = Inr (Data df) \<longrightarrow> distinct (map fst df))
      \<longrightarrow> sorted_wrt (<)
            (map ts (filter (\<lambda>x. coin x = k) (price_history (snd (snd (run_home f i s))))))
          \<and> (\<forall>x\<in>set (price_history (snd (snd (run_home f i s)))). ts x \<le> utcnow_sample i))
   \<and> (\<not> button i
      \<longrightarrow> fetch_prices_cached (to_frame f) (cache_clock i) (net i) API_URL (prices_cache s) = (Inr (Data df), c)
      \<longrightarrow> (\<forall>r\<in>set df. map_of (snd r) VS \<noteq> None)
      \<longrightarrow> price_history (snd (snd (run_home f i s))) =
            prune_history (utcnow_prune i)
              (price_history s
                 @ map (\<lambda>r. \<lparr>ts = utcnow_sample i, coin = fst r, price = the (map_of (snd r) VS)\<rparr>) df))
   \<and> (\<not> button i
      \<longrightarrow> get_weather_cached cv (cache_clock i) (net i) (weather_cache w) = (Inr (Data wdf), wc)
      \<longrightarrow> weather_history (snd (snd (run_weather cv i w))) =
            prune_weather (utcnow_prune i)
              (weather_history w
                 @ [\<lparr>ts = time_col wdf, temperature = float_or_None (temperature_col wdf),
                     wind = float_or_None (wind_col wdf)\<rparr>]))
   \<and> (\<not> button i \<longrightarrow> err \<noteq> []
      \<longrightarrow> get_weather_cached cv (cache_clock i) (net i) (weather_cache w) = (Inr (Error err), wc)
      \<longrightarrow> weather_history (snd (snd (run_weather cv i w))) =
            prune_weather (utcnow_prune i)
              (weather_history w @ [\<lparr>ts = utcnow_sample i, temperature = None, wind = None\<rparr>]))"
proof (intro conjI impI)
  assume a: "sorted_wrt (<) (map ts (filter (\<lambda>x. coin x = k) (price_history s)))"
    "\<forall>x\<in>set (price_history s). ts x < utcnow_sample i"
    "\<forall>df. fst (fetch_prices_cached (to_frame f) (cache_clock i) (net i) API_URL (prices_cache s))
                  = Inr (Data df) \<longrightarrow> distinct (map fst df)"
  from run_home_keeps_strict [OF a]
  show "sorted_wrt (<)
          (map ts (filter (\<lambda>x. coin x = k) (price_history (snd (snd (run_home f i s))))))"
    by simp
  from run_home_keeps_strict [OF a]
  show "\<forall>x\<in>set (price_history (snd (snd (run_home f i s)))). ts x \<le> utcnow_sample i"
    by simp
next
  assume "\<not> button i"
    "fetch_prices_cached (to_frame f) (cache_clock i) (net i) API_URL (prices_cache s) = (Inr (Data df), c)"
    "\<forall>r\<in>set df. map_of (snd r) VS \<noteq> None"
  then show "price_history (snd (snd (run_home f i s))) =
            prune_history (utcnow_prune i)
              (price_history s
                 @ map (\<lambda>r. \<lparr>ts = utcnow_sample i, coin = fst r, price = the (map_of (snd r) VS)\<rparr>) df)"
    by (rule run_home_Data)
next
  assume "\<not> button i"
    "get_weather_cached cv (cache_clock i) (net i) (weather_cache w) = (Inr (Data wdf), wc)"
  then show "weather_history (snd (snd (run_weather cv i w))) =
            prune_weather (utcnow_prune i)
              (weather_history w
                 @ [\<lparr>ts = time_col wdf, temperature = float_or_None (temperature_col wdf),
                     wind = float_or_None (wind_col wdf)\<rparr>])"
    by (simp add: run_weather_Data Let_def reading_of_def)
next
  assume "\<not> button i" "err \<noteq> []"
    "get_weather_cached cv (cache_clock i) (net i) (weather_cache w) = (Inr (Error err), wc)"
  then show "weather_history (snd (snd (run_weather cv i w))) =
            prune_weather (utcnow_prune i)
              (weather_history w @ [\<lparr>ts = utcnow_sample i, temperature = None, wind = None\<rparr>])"
    by (simp add: run_weather_Error Let_def)
qed

text \<open>
  Two runs of the weather page one minute apart, the second a cache hit: both readings
  carry the time the API reported, so the timestamps are not strictly increasing.
\<close>

theorem strictly_increasing_timestamps_counterexample:
  "weather_history (runs_weather field_conversions
      [idle\<lparr>net := serving weather_payload, utcnow_sample := minutes 16, utcnow_prune := minutes 16\<rparr>,
       idle\<lparr>cache_clock := 60, utcnow_sample := minutes 17, utcnow_prune := minutes 17\<rparr>]
      new_weather_session)
     = [\<lparr>ts = minutes 15, temperature = Some (Num 5), wind = Some (Num 3)\<rparr>,
        \<lparr>ts = minutes 15, temperature = Some (Num 5), wind = Some (Num 3)\<rparr>]
   \<and> \<not> sorted_wrt (<) (map ts (weather_history (runs_weather field_conversions
      [idle\<lparr>net := serving weather_payload, utcnow_sample := minutes 16, utcnow_prune := minutes 16\<rparr>,
       idle\<lparr>cache_clock := 60, utcnow_sample := minutes 17, utcnow_prune := minutes 17\<rparr>]
      new_weather_session)))"
proof -
  have "weather_history (runs_weather field_conversions
      [idle\<lparr>net := serving weather_payload, utcnow_sample := minutes 16, utcnow_prune := minutes 16\<rparr>,
       idle\<lparr>cache_clock := 60, utcnow_sample := minutes 17, utcnow_prune := minutes 17\<rparr>]
      new_weather_session)
     = [\<lparr>ts = minutes 15, temperature = Some (Num 5), wind = Some (Num 3)\<rparr>,
        \<lparr>ts = minutes 15, temperature = Some (Num 5), wind = Some (Num 3)\<rparr>]"
    by (simp add: run_weather_def show_weather_def get_weather_cached_def cache_get_def
        cache_miss_def get_weather_def get_weather_try_def except_RequestException_def
        and_then_def raise_for_status_def serving_def weather_payload_def field_conversions_def
        idle_def new_weather_session_def empty_cache_def reading_of_def prune_weather_def
        Let_def minutes_def hours_def WINDOW_HOURS_def)
  then show ?thesis by simp
qed


text \<open>
  A price run and a weather run on a cached result, and a weather run with the network
  down, all at minute 16.
\<close>

theorem sample_timestamps_witness:
  "sorted_wrt (<) (map ts (filter (\<lambda>x. coin x = ''bitcoin'')
      [\<lparr>ts = 0, coin = ''bitcoin'', price = Num 70000\<rparr>,
       \<lparr>ts = 0, coin = ''ethereum'', price = Num 3600\<rparr>]))
   \<and> list_all (\<lambda>x. ts x < minutes 16)
      [\<lparr>ts = 0, coin = ''bitcoin'', price = Num 70000\<rparr>,
       \<lparr>ts = 0, coin = ''ethereum'', price = Num 3600\<rparr>]
   \<and> distinct (map fst prices_frame)
   \<and> \<not> button (idle\<lparr>cache_clock := 60, utcnow_sample := minutes 16, utcnow_prune := minutes 16\<rparr>)
   \<and> price_history (snd (snd (run_home example_lib
        (idle\<lparr>cache_clock := 60, utcnow_sample := minutes 16, utcnow_prune := minutes 16\<rparr>)
        \<lparr>price_history = [\<lparr>ts = 0, coin = ''bitcoin'', price = Num 70000\<rparr>,
                           \<lparr>ts = 0, coin = ''ethereum'', price = Num 3600\<rparr>],
         prices_cache = \<lparr>entries = [API_URL \<mapsto> \<lparr>stored = Data prices_frame, fetched_at = 0\<rparr>],
                         fetcher_calls = 1\<rparr>\<rparr>)))
      = [\<lparr>ts = 0, coin = ''bitcoin'', price = Num 70000\<rparr>,
         \<lparr>ts = 0, coin = ''ethereum'', price = Num 3600\<rparr>,
         \<lparr>ts = minutes 16, coin = ''bitcoin'', price = Num 70000\<rparr>,
         \<lparr>ts = minutes 16, coin = ''ethereum'', price = Num 3600\<rparr>]
   \<and> sorted_wrt (<) (map ts (filter (\<lambda>x. coin x = ''bitcoin'')
        (price_history (snd (snd (run_home example_lib
          (idle\<lparr>cache_clock := 60, utcnow_sample := minutes 16, utcnow_prune := minutes 16\<rparr>)
          \<lparr>price_history = [\<lparr>ts = 0, coin = ''bitcoin'', price = Num 70000\<rparr>,
                             \<lparr>ts = 0, coin = ''ethereum'', price = Num 3600\<rparr>],
           prices_cache = \<lparr>entries = [API_URL \<mapsto> \<lparr>stored = Data prices_frame, fetched_at = 0\<rparr>],
                           fetcher_calls = 1\<rparr>\<rparr>))))))
   \<and> weather_history (snd (snd (run_weather field_conversions
        (idle\<lparr>cache_clock := 60, utcnow_sample := minutes 16, utcnow_prune := minutes 16\<rparr>)
        \<lparr>weather_history = [\<lparr>ts = minutes 15, temperature = Some (Num 5), wind = Some (Num 3)\<rparr>],
         weather_cache =
           \<lparr>entries = [() \<mapsto> \<lparr>stored = Data \<lparr>time_col = minutes 15, temperature_col = Num 5,
                                                  wind_col = Num 3\<rparr>, fetched_at = 0\<rparr>],
            fetcher_calls = 1\<rparr>\<rparr>)))
      = [\<lparr>ts = minutes 15, temperature = Some (Num 5), wind = Some (Num 3)\<rparr>,
         \<lparr>ts = minutes 15, temperature = Some (Num 5), wind = Some (Num 3)\<rparr>]
   \<and> weather_history (snd (snd (run_weather field_conversions
        (idle\<lparr>cache_clock := 60, utcnow_sample := minutes 16, utcnow_prune := minutes 16\<rparr>)
        new_weather_session)))
      = [\<lparr>ts = minutes 16, temperature = None, wind = None\<rparr>]"
proof -
  let ?i = "idle\<lparr>cache_clock := 60, utcnow_sample := minutes 16, utcnow_prune := minutes 16\<rparr>"
  let ?pe = "\<lparr>stored = Data prices_frame, fetched_at = 0\<rparr>"
  let ?row = "\<lparr>time_col = minutes 15, temperature_col = Num 5, wind_col = Num 3\<rparr>"
  let ?we = "\<lparr>stored = Data ?row, fetched_at = 0\<rparr>"
  let ?h = "[\<lparr>ts = 0, coin = ''bitcoin'', price = Num 70000\<rparr>,
             \<lparr>ts = 0, coin = ''ethereum'', price = Num 3600\<rparr>]"
  let ?s = "\<lparr>price_history = ?h,
         prices_cache = \<lparr>entries = [API_URL \<mapsto> ?pe], fetcher_calls = 1\<rparr>\<rparr>"
  let ?w = "\<lparr>weather_history = [\<lparr>ts = minutes 15, temperature = Some (Num 5), wind = Some (Num 3)\<rparr>],
         weather_cache = \<lparr>entries = [() \<mapsto> ?we], fetcher_calls = 1\<rparr>\<rparr>"
  let ?msg = "''Network/HTTP error: connection refused''"
  let ?wc = "\<lparr>entries = [() \<mapsto> \<lparr>stored = Error ?msg, fetched_at = 60\<rparr>], fetcher_calls = 1\<rparr>"
  note t = sample_timestamps [where i = ?i and s = ?s and w = ?w and k = "''bitcoin''"
      and df = prices_frame and wdf = ?row and f = example_lib and cv = field_conversions
      and c = "prices_cache ?s" and wc = "weather_cache ?w"]
  note u = sample_timestamps [where i = ?i and w = new_weather_session and cv = field_conversions
      and err = ?msg and wc = ?wc]
  have nb: "\<not> button ?i" by (simp add: idle_def)
  have ph: "fetch_prices_cached (to_frame example_lib) (cache_clock ?i) (net ?i) API_URL (prices_cache ?s)
      = (Inr (Data prices_frame), prices_cache ?s)"
    by (simp add: fetch_prices_cached_def cache_get_def idle_def)
  have wh: "get_weather_cached field_conversions (cache_clock ?i) (net ?i) (weather_cache ?w)
      = (Inr (Data ?row), weather_cache ?w)"
    by (simp add: get_weather_cached_def cache_get_def idle_def)
  have we: "get_weather_cached field_conversions (cache_clock ?i) (net ?i)
        (weather_cache new_weather_session) = (Inr (Error ?msg), ?wc)"
    by (simp add: get_weather_cached_def cache_get_def cache_miss_def get_weather_def
        get_weather_try_def except_RequestException_def offline_def idle_def
        new_weather_session_def empty_cache_def)
  have so: "sorted_wrt (<) (map ts (filter (\<lambda>x. coin x = ''bitcoin'') (price_history ?s)))"
    by simp
  have old: "\<forall>x\<in>set (price_history ?s). ts x < utcnow_sample ?i"
    by (simp add: idle_def minutes_def)
  have di: "distinct (map fst prices_frame)" by (simp add: prices_frame_def)
  have dd: "\<forall>df. fst (fetch_prices_cached (to_frame example_lib) (cache_clock ?i) (net ?i) API_URL
                    (prices_cache ?s)) = Inr (Data df) \<longrightarrow> distinct (map fst df)"
    using di unfolding ph by simp
  have priced: "\<forall>r\<in>set prices_frame. map_of (snd r) VS \<noteq> None"
    by (simp add: prices_frame_def VS_def)
  have ne: "?msg \<noteq> []" by simp
  note c1 = t [THEN conjunct1, THEN mp, THEN mp, THEN mp, OF so old dd, THEN conjunct1]
  note c2 = t [THEN conjunct2, THEN conjunct1, THEN mp, THEN mp, THEN mp, OF nb ph priced]
  note c3 = t [THEN conjunct2, THEN conjunct2, THEN conjunct1, THEN mp, THEN mp, OF nb wh]
  note c4 = u [THEN conjunct2, THEN conjunct2, THEN conjunct2, THEN mp, THEN mp, THEN mp,
      OF nb ne we]
  have l: "list_all (\<lambda>x. ts x < minutes 16) ?h" by (simp add: minutes_def)
  have s0: "sorted_wrt (<) (map ts (filter (\<lambda>x. coin x = ''bitcoin'') ?h))" by simp
  have h2: "price_history (snd (snd (run_home example_lib ?i ?s)))
      = [\<lparr>ts = 0, coin = ''bitcoin'', price = Num 70000\<rparr>,
         \<lparr>ts = 0, coin = ''ethereum'', price = Num 3600\<rparr>,
         \<lparr>ts = minutes 16, coin = ''bitcoin'', price = Num 70000\<rparr>,
         \<lparr>ts = minutes 16, coin = ''ethereum'', price = Num 3600\<rparr>]"
    using c2
    by (simp add: idle_def prices_frame_def VS_def prune_history_def minutes_def WINDOW_MINUTES_def)
  have h3: "weather_history (snd (snd (run_weather field_conversions ?i ?w)))
      = [\<lparr>ts = minutes 15, temperature = Some (Num 5), wind = Some (Num 3)\<rparr>,
         \<lparr>ts = minutes 15, temperature = Some (Num 5), wind = Some (Num 3)\<rparr>]"
    using c3
    by (simp add: idle_def prune_weather_def minutes_def hours_def WINDOW_HOURS_def)
  have h4: "weather_history (snd (snd (run_weather field_conversions ?i new_weather_session)))
      = [\<lparr>ts = minutes 16, temperature = None, wind = None\<rparr>]"
    using c4
    by (simp add: idle_def new_weather_session_def prune_weather_def minutes_def hours_def
        WINDOW_HOURS_def)
  from s0 l di nb h2 c1 h3 h4 show ?thesis by (intro conjI)
qed

end
